theory Spec2Isabelle
  imports Main "HOL-Library.Sublist"
begin

section \<open>The Go runtime buildpack: \<open>cmd/go/runtime/main.go\<close>\<close>

text \<open>
  The buildpack resolves the Go toolchain version (override variable, then \<open>go.mod\<close>,
  then the release catalog), compares it with the version recorded on the cached layer and,
  on a miss, installs the archive from one of two mirrors. Go strings are byte strings:
  they are modelled as \<open>string\<close>, a list of 8-bit characters.
\<close>

subsection \<open>Constants of the source\<close>

definition goVersionURL :: string where
  "goVersionURL = ''https://golang.org/dl/?mode=json''"

definition goAltVersionURL :: string where
  "goAltVersionURL = ''https://golang.google.cn/dl/?mode=json''"

definition goURL :: string where
  "goURL = ''https://dl.google.com/go/go%s.linux-amd64.tar.gz''"

definition goAltURL :: string where
  "goAltURL = ''https://golang.google.cn/dl/go%s.linux-amd64.tar.gz''"

definition goLayer :: string where
  "goLayer = ''go''"

definition versionKey :: string where
  "versionKey = ''version''"

text \<open>\<open>http.StatusOK\<close> of the standard library.\<close>

definition StatusOK :: int where
  "StatusOK = 200"

subsection \<open>The standard library: \<open>strings.TrimPrefix\<close> and \<open>fmt.Sprintf\<close>\<close>

definition TrimPrefix :: "string \<Rightarrow> string \<Rightarrow> string" where
  "TrimPrefix s p = (if prefix p s then drop (length p) s else s)"

definition byte :: "char \<Rightarrow> nat" where
  "byte c = of_char c"

fun decimal :: "nat \<Rightarrow> string" where
  "decimal n =
     (if n < 10 then [char_of (48 + n)]
      else decimal (n div 10) @ [char_of (48 + n mod 10)])"

definition Itoa :: "int \<Rightarrow> string" where
  "Itoa i = (if i < 0 then CHR ''-'' # decimal (nat (- i)) else decimal (nat i))"

text \<open>
  \<open>strconv.Quote\<close>, as the verb \<open>%q\<close> applies it, on printable ASCII: the double quote
  and the backslash are escaped, every other byte stands for itself. The source quotes only
  the constant \<open>goVersionURL\<close>.
\<close>

fun quoteBody :: "string \<Rightarrow> string" where
  "quoteBody [] = []"
| "quoteBody (c # cs) =
     (if c = CHR 0x22 \<or> c = CHR 0x5C then CHR 0x5C # c # quoteBody cs
      else c # quoteBody cs)"

definition Quote :: "string \<Rightarrow> string" where
  "Quote s = CHR 0x22 # quoteBody s @ [CHR 0x22]"

text \<open>
  The operands of a \<open>Sprintf\<close> call: a string or an error's message (\<open>%s\<close>, \<open>%v\<close>,
  \<open>%w\<close>, quoted under \<open>%q\<close>) or an integer (\<open>%d\<close>).
\<close>

datatype operand = S string | D int

fun verb :: "char \<Rightarrow> operand \<Rightarrow> string" where
  "verb c (S s) = (if c = CHR ''q'' then Quote s else s)"
| "verb c (D i) = Itoa i"

fun Sprintf :: "string \<Rightarrow> operand list \<Rightarrow> string" where
  "Sprintf [] ops = []"
| "Sprintf [c] ops = (if c = CHR ''%'' then ''%!(NOVERB)'' else [c])"
| "Sprintf (c # d # cs) ops =
     (if c = CHR ''%'' then
        (case ops of
           [] \<Rightarrow> ''%!'' @ [d] @ ''(MISSING)'' @ Sprintf cs []
         | x # xs \<Rightarrow> verb d x @ Sprintf cs xs)
      else c # Sprintf (d # cs) ops)"

subsection \<open>The standard library: \<open>json.Unmarshal\<close> into \<open>goReleases\<close>\<close>

text \<open>
  \<open>type goReleases []struct { Version string `json:"version"`; Stable bool `json:"stable"` }\<close>
\<close>

record release =
  Version :: string
  Stable :: bool

type_synonym goReleases = "release list"

text \<open>
  \<open>encoding/json\<close> first checks that the whole input is one JSON text and then stores it
  into the target. The model does the same in three passes: the bytes are cut into tokens
  (string literals unquoted as the decoder unquotes them), the tokens are read into a tree by
  a pushdown automaton, and the tree is stored into a \<open>goReleases\<close> value.
\<close>

datatype token =
  TLBracket | TRBracket | TLBrace | TRBrace | TComma | TColon
  | TString string | TNumber | TTrue | TFalse | TNull

definition isSpace :: "char \<Rightarrow> bool" where
  "isSpace c = (c = CHR '' '' \<or> c = CHR 0x09 \<or> c = CHR 0x0D \<or> c = CHR 0x0A)"

definition isDigit :: "char \<Rightarrow> bool" where
  "isDigit c = (48 \<le> byte c \<and> byte c \<le> 57)"

definition hexval :: "char \<Rightarrow> nat option" where
  "hexval c =
     (let b = byte c in
      if 48 \<le> b \<and> b \<le> 57 then Some (b - 48)
      else if 97 \<le> b \<and> b \<le> 102 then Some (b - 87)
      else if 65 \<le> b \<and> b \<le> 70 then Some (b - 55)
      else None)"

text \<open>\<open>getu4\<close>: the code unit of a leading \<open>\uXXXX\<close>, if the bytes start with one.\<close>

fun getu4 :: "string \<Rightarrow> nat option" where
  "getu4 (b # u # h1 # h2 # h3 # h4 # cs) =
     (if b = CHR 0x5C \<and> u = CHR ''u'' then
        (case (hexval h1, hexval h2, hexval h3, hexval h4) of
           (Some a, Some b, Some c, Some d) \<Rightarrow> Some (4096 * a + 256 * b + 16 * c + d)
         | _ \<Rightarrow> None)
      else None)"
| "getu4 _ = None"

text \<open>\<open>utf8.EncodeRune\<close> on a code point below \<open>0x110000\<close> that is no surrogate.\<close>

definition EncodeRune :: "nat \<Rightarrow> string" where
  "EncodeRune r =
     (if r < 128 then [char_of r]
      else if r < 2048 then [char_of (192 + r div 64), char_of (128 + r mod 64)]
      else if r < 65536 then
        [char_of (224 + r div 4096), char_of (128 + r div 64 mod 64), char_of (128 + r mod 64)]
      else
        [char_of (240 + r div 262144), char_of (128 + r div 4096 mod 64),
         char_of (128 + r div 64 mod 64), char_of (128 + r mod 64)])"

text \<open>The replacement character \<open>U+FFFD\<close> in UTF-8.\<close>

definition RuneError :: string where
  "RuneError = [CHR 0xEF, CHR 0xBF, CHR 0xBD]"

definition isSurrogate :: "nat \<Rightarrow> bool" where
  "isSurrogate r = (55296 \<le> r \<and> r < 57344)"

text \<open>\<open>utf16.DecodeRune\<close>: a high and a low surrogate make one code point.\<close>

definition DecodeRune16 :: "nat \<Rightarrow> nat \<Rightarrow> nat option" where
  "DecodeRune16 r1 r2 =
     (if 55296 \<le> r1 \<and> r1 < 56320 \<and> 56320 \<le> r2 \<and> r2 < 57344
      then Some ((r1 - 55296) * 1024 + (r2 - 56320) + 65536)
      else None)"

definition unescape :: "char \<Rightarrow> char option" where
  "unescape c =
     (if c = CHR 0x22 \<or> c = CHR 0x5C \<or> c = CHR ''/'' then Some c
      else if c = CHR ''b'' then Some (CHR 0x08)
      else if c = CHR ''f'' then Some (CHR 0x0C)
      else if c = CHR ''n'' then Some (CHR 0x0A)
      else if c = CHR ''r'' then Some (CHR 0x0D)
      else if c = CHR ''t'' then Some (CHR 0x09)
      else None)"

definition emit :: "string \<Rightarrow> (string \<times> string) option \<Rightarrow> (string \<times> string) option" where
  "emit bs r = map_option (\<lambda>(s, rest). (bs @ s, rest)) r"

text \<open>
  The body of a string literal, after its opening quote: the unquoted bytes and the input
  after the closing quote. A control byte, an unknown escape and a missing closing quote are
  syntax errors.
\<close>

fun lexString :: "string \<Rightarrow> (string \<times> string) option" where
  "lexString [] = None"
| "lexString (c # cs) =
     (if c = CHR 0x22 then Some ([], cs)
      else if c = CHR 0x5C then
        (case cs of
           [] \<Rightarrow> None
         | e # es \<Rightarrow>
             if e = CHR ''u'' then
               (case getu4 (c # cs) of
                  None \<Rightarrow> None
                | Some rr \<Rightarrow>
                    if isSurrogate rr then
                      (case getu4 (drop 4 es) of
                         None \<Rightarrow> emit RuneError (lexString (drop 4 es))
                       | Some rr1 \<Rightarrow>
                           (case DecodeRune16 rr rr1 of
                              None \<Rightarrow> emit RuneError (lexString (drop 4 es))
                            | Some r \<Rightarrow> emit (EncodeRune r) (lexString (drop 10 es))))
                    else emit (EncodeRune rr) (lexString (drop 4 es)))
             else
               (case unescape e of
                  None \<Rightarrow> None
                | Some b \<Rightarrow> emit [b] (lexString es)))
      else if byte c < 32 then None
      else emit [c] (lexString cs))"

text \<open>
  Invalid UTF-8 in a string literal is replaced byte by byte with \<open>U+FFFD\<close>, valid
  sequences are kept (\<open>utf8.DecodeRune\<close> followed by \<open>utf8.EncodeRune\<close>).
\<close>

definition isCont :: "char \<Rightarrow> bool" where
  "isCont c = (128 \<le> byte c \<and> byte c \<le> 191)"

definition second_ok :: "nat \<Rightarrow> char \<Rightarrow> bool" where
  "second_ok b c =
     (if b = 224 then 160 \<le> byte c \<and> byte c \<le> 191
      else if b = 237 then 128 \<le> byte c \<and> byte c \<le> 159
      else if b = 240 then 144 \<le> byte c \<and> byte c \<le> 191
      else if b = 244 then 128 \<le> byte c \<and> byte c \<le> 143
      else isCont c)"

fun toValidUTF8 :: "string \<Rightarrow> string" where
  "toValidUTF8 [] = []"
| "toValidUTF8 (c # cs) =
     (let b = byte c in
      if b < 128 then c # toValidUTF8 cs
      else if 194 \<le> b \<and> b \<le> 223 then
        (case cs of
           c1 # r \<Rightarrow> if isCont c1 then c # c1 # toValidUTF8 r else RuneError @ toValidUTF8 cs
         | _ \<Rightarrow> RuneError @ toValidUTF8 cs)
      else if 224 \<le> b \<and> b \<le> 239 then
        (case cs of
           c1 # c2 # r \<Rightarrow>
             if second_ok b c1 \<and> isCont c2 then c # c1 # c2 # toValidUTF8 r
             else RuneError @ toValidUTF8 cs
         | _ \<Rightarrow> RuneError @ toValidUTF8 cs)
      else if 240 \<le> b \<and> b \<le> 244 then
        (case cs of
           c1 # c2 # c3 # r \<Rightarrow>
             if second_ok b c1 \<and> isCont c2 \<and> isCont c3 then c # c1 # c2 # c3 # toValidUTF8 r
             else RuneError @ toValidUTF8 cs
         | _ \<Rightarrow> RuneError @ toValidUTF8 cs)
      else RuneError @ toValidUTF8 cs)"

text \<open>
  A number literal: \<open>-? (0 | [1-9][0-9]*) (. [0-9]+)? ([eE] [+-]? [0-9]+)?\<close>. The
  functions return the input after the longest literal, or \<open>None\<close> where the grammar
  needs a digit and finds none.
\<close>

fun skipDigits :: "string \<Rightarrow> string" where
  "skipDigits [] = []"
| "skipDigits (c # cs) = (if isDigit c then skipDigits cs else c # cs)"

definition digits1 :: "string \<Rightarrow> string option" where
  "digits1 cs =
     (case cs of
        [] \<Rightarrow> None
      | c # r \<Rightarrow> if isDigit c then Some (skipDigits r) else None)"

definition lexExp :: "string \<Rightarrow> string option" where
  "lexExp cs =
     (case cs of
        [] \<Rightarrow> Some []
      | c # r \<Rightarrow>
          if c = CHR ''e'' \<or> c = CHR ''E'' then
            (case r of
               [] \<Rightarrow> None
             | s # r' \<Rightarrow> if s = CHR ''+'' \<or> s = CHR ''-'' then digits1 r' else digits1 r)
          else Some cs)"

definition lexFrac :: "string \<Rightarrow> string option" where
  "lexFrac cs =
     (case cs of
        [] \<Rightarrow> Some []
      | c # r \<Rightarrow>
          if c = CHR ''.'' then (case digits1 r of None \<Rightarrow> None | Some r' \<Rightarrow> lexExp r')
          else lexExp cs)"

definition lexInt :: "string \<Rightarrow> string option" where
  "lexInt cs =
     (case cs of
        [] \<Rightarrow> None
      | c # r \<Rightarrow>
          if c = CHR ''0'' then lexFrac r
          else if isDigit c then lexFrac (skipDigits r)
          else None)"

definition lexNumber :: "string \<Rightarrow> string option" where
  "lexNumber cs =
     (case cs of
        [] \<Rightarrow> None
      | c # r \<Rightarrow> if c = CHR ''-'' then lexInt r else lexInt cs)"

lemma emit_Some:
  "emit bs r = Some (s, rest) \<Longrightarrow> \<exists>s'. r = Some (s', rest)"
  by (cases r) (auto simp: emit_def)

lemma lexString_shorter: "lexString cs = Some (s, r) \<Longrightarrow> length r < length cs"
proof (induction "length cs" arbitrary: cs s r rule: less_induct)
  case less
  from less.prems obtain c cs' where cs: "cs = c # cs'"
    by (cases cs) auto
  from less.prems [unfolded cs lexString.simps]
  consider "r = cs'" | s' sub where "lexString sub = Some (s', r)" "length sub \<le> length cs'"
    by (auto split: if_splits list.splits option.splits dest!: emit_Some)
  then show ?case
  proof cases
    case 1
    with cs show ?thesis by simp
  next
    case 2
    with less.hyps [of sub s' r] cs show ?thesis by simp
  qed
qed

lemma skipDigits_length: "length (skipDigits cs) \<le> length cs"
  by (induction cs) auto

lemma digits1_shorter: "digits1 cs = Some r \<Longrightarrow> length r < length cs"
  using skipDigits_length
  by (auto simp: digits1_def less_Suc_eq_le split: list.splits if_splits)

lemma lexExp_length: "lexExp cs = Some r \<Longrightarrow> length r \<le> length cs"
  by (fastforce simp: lexExp_def split: list.splits if_splits dest: digits1_shorter)

lemma lexFrac_length: "lexFrac cs = Some r \<Longrightarrow> length r \<le> length cs"
  by (fastforce simp: lexFrac_def split: list.splits if_splits option.splits
      dest: digits1_shorter lexExp_length)

lemma lexInt_shorter: "lexInt cs = Some r \<Longrightarrow> length r < length cs"
proof -
  assume a: "lexInt cs = Some r"
  then obtain c cs' where cs: "cs = c # cs'"
    by (cases cs) (auto simp: lexInt_def)
  from a cs consider "lexFrac cs' = Some r" | "lexFrac (skipDigits cs') = Some r"
    by (auto simp: lexInt_def split: if_splits)
  then show ?thesis
  proof cases
    case 1
    from lexFrac_length [OF 1] cs show ?thesis by simp
  next
    case 2
    from lexFrac_length [OF 2] skipDigits_length [of cs'] cs show ?thesis by simp
  qed
qed

lemma lexNumber_shorter: "lexNumber cs = Some r \<Longrightarrow> length r < length cs"
  by (fastforce simp: lexNumber_def split: list.splits if_splits dest: lexInt_shorter)

text \<open>
  The tokens of an input. The literals \<open>true\<close>, \<open>false\<close> and \<open>null\<close> are spelled in
  lower case; any other byte outside a literal is a syntax error.
\<close>

function lex :: "string \<Rightarrow> token list option" where
  "lex [] = Some []"
| "lex (c # cs) =
     (if isSpace c then lex cs
      else if c = CHR ''['' then map_option ((#) TLBracket) (lex cs)
      else if c = CHR '']'' then map_option ((#) TRBracket) (lex cs)
      else if c = CHR ''{'' then map_option ((#) TLBrace) (lex cs)
      else if c = CHR ''}'' then map_option ((#) TRBrace) (lex cs)
      else if c = CHR '','' then map_option ((#) TComma) (lex cs)
      else if c = CHR '':'' then map_option ((#) TColon) (lex cs)
      else if c = CHR 0x22 then
        (case lexString cs of
           None \<Rightarrow> None
         | Some (s, r) \<Rightarrow> map_option ((#) (TString (toValidUTF8 s))) (lex r))
      else if c = CHR ''t'' then
        (if prefix ''rue'' cs then map_option ((#) TTrue) (lex (drop 3 cs)) else None)
      else if c = CHR ''f'' then
        (if prefix ''alse'' cs then map_option ((#) TFalse) (lex (drop 4 cs)) else None)
      else if c = CHR ''n'' then
        (if prefix ''ull'' cs then map_option ((#) TNull) (lex (drop 3 cs)) else None)
      else if c = CHR ''-'' \<or> isDigit c then
        (case lexNumber (c # cs) of
           None \<Rightarrow> None
         | Some r \<Rightarrow> map_option ((#) TNumber) (lex r))
      else None)"
  by pat_completeness auto
termination
proof (relation "measure length")
  fix c cs x2 x y
  assume "lexString cs = Some x2" "(x, y) = x2"
  then show "(y, c # cs) \<in> measure length"
    using lexString_shorter [of cs x y] by simp
next
  fix c cs x2
  assume "lexNumber (c # cs) = Some x2"
  then show "(x2, c # cs) \<in> measure length"
    using lexNumber_shorter [of "c # cs" x2] by simp
qed auto

text \<open>The tree of a JSON text. The value of a number is never stored, so it is dropped.\<close>

datatype json =
  JNull | JBool bool | JNumber | JString string
  | JArray "json list" | JObject "(string \<times> json) list"

text \<open>
  The automaton over the tokens. Its stack holds the open containers (members and elements
  in reverse order); its mode says what may come next. \<open>maxNestingDepth\<close> bounds the
  stack as the scanner of \<open>encoding/json\<close> does.
\<close>

datatype frame =
  FArray "json list" | FObject "(string \<times> json) list" | FKey "(string \<times> json) list" string

datatype mode = MValue | MFirst | MKeyFirst | MKey | MColon | MNext | MDone json

definition maxNestingDepth :: nat where
  "maxNestingDepth = 10000"

fun complete :: "json \<Rightarrow> frame list \<Rightarrow> (mode \<times> frame list) option" where
  "complete v [] = Some (MDone v, [])"
| "complete v (FArray xs # st) = Some (MNext, FArray (v # xs) # st)"
| "complete v (FKey kvs k # st) = Some (MNext, FObject ((k, v) # kvs) # st)"
| "complete v (FObject kvs # st) = None"

definition push :: "mode \<Rightarrow> frame \<Rightarrow> frame list \<Rightarrow> (mode \<times> frame list) option" where
  "push m f st = (if length st < maxNestingDepth then Some (m, f # st) else None)"

fun beginValue :: "token \<Rightarrow> frame list \<Rightarrow> (mode \<times> frame list) option" where
  "beginValue TLBracket st = push MFirst (FArray []) st"
| "beginValue TLBrace st = push MKeyFirst (FObject []) st"
| "beginValue (TString s) st = complete (JString s) st"
| "beginValue TNumber st = complete JNumber st"
| "beginValue TTrue st = complete (JBool True) st"
| "beginValue TFalse st = complete (JBool False) st"
| "beginValue TNull st = complete JNull st"
| "beginValue _ st = None"

fun step :: "mode \<Rightarrow> frame list \<Rightarrow> token \<Rightarrow> (mode \<times> frame list) option" where
  "step MValue st t = beginValue t st"
| "step MFirst (FArray xs # st) TRBracket = complete (JArray (rev xs)) st"
| "step MFirst st t = beginValue t st"
| "step MKeyFirst (FObject kvs # st) TRBrace = complete (JObject (rev kvs)) st"
| "step MKeyFirst (FObject kvs # st) (TString k) = Some (MColon, FKey kvs k # st)"
| "step MKey (FObject kvs # st) (TString k) = Some (MColon, FKey kvs k # st)"
| "step MColon st TColon = Some (MValue, st)"
| "step MNext (FArray xs # st) TComma = Some (MValue, FArray xs # st)"
| "step MNext (FArray xs # st) TRBracket = complete (JArray (rev xs)) st"
| "step MNext (FObject kvs # st) TComma = Some (MKey, FObject kvs # st)"
| "step MNext (FObject kvs # st) TRBrace = complete (JObject (rev kvs)) st"
| "step _ _ _ = None"

fun run :: "mode \<Rightarrow> frame list \<Rightarrow> token list \<Rightarrow> json option" where
  "run (MDone v) [] [] = Some v"
| "run m st [] = None"
| "run m st (t # ts) =
     (case step m st t of
        None \<Rightarrow> None
      | Some (m', st') \<Rightarrow> run m' st' ts)"

definition parse :: "string \<Rightarrow> json option" where
  "parse s = (case lex s of None \<Rightarrow> None | Some ts \<Rightarrow> run MValue [] ts)"

text \<open>
  A key of an object names a field when the two are equal under case folding: ASCII letters
  in either case, and the long s \<open>U+017F\<close> and the Kelvin sign \<open>U+212A\<close> for the
  letters s and k.
\<close>

definition upper :: "char \<Rightarrow> char" where
  "upper c = (if 97 \<le> byte c \<and> byte c \<le> 122 then char_of (byte c - 32) else c)"

fun foldName :: "string \<Rightarrow> string" where
  "foldName (a # b # c # cs) =
     (if a = CHR 0xC5 \<and> b = CHR 0xBF then CHR ''S'' # foldName (c # cs)
      else if a = CHR 0xE2 \<and> b = CHR 0x84 \<and> c = CHR 0xAA then CHR ''K'' # foldName cs
      else upper a # foldName (b # c # cs))"
| "foldName [a, b] =
     (if a = CHR 0xC5 \<and> b = CHR 0xBF then ''S'' else [upper a, upper b])"
| "foldName [a] = [upper a]"
| "foldName [] = []"

definition names :: "string \<Rightarrow> string \<Rightarrow> bool" where
  "names k field = (foldName k = foldName field)"

text \<open>
  Storing a member into the struct: a string into \<open>Version\<close>, a boolean into
  \<open>Stable\<close>, \<open>null\<close> changes nothing, a value of another kind is an
  \<open>UnmarshalTypeError\<close> (\<open>None\<close>); a member that names no field is skipped. A later
  member overwrites an earlier one.
\<close>

fun storeField :: "release \<Rightarrow> string \<times> json \<Rightarrow> release option" where
  "storeField r (k, v) =
     (if names k ''version'' then
        (case v of
           JString s \<Rightarrow> Some (r\<lparr>Version := s\<rparr>)
         | JNull \<Rightarrow> Some r
         | _ \<Rightarrow> None)
      else if names k ''stable'' then
        (case v of
           JBool b \<Rightarrow> Some (r\<lparr>Stable := b\<rparr>)
         | JNull \<Rightarrow> Some r
         | _ \<Rightarrow> None)
      else Some r)"

fun storeObject :: "release \<Rightarrow> (string \<times> json) list \<Rightarrow> release option" where
  "storeObject r [] = Some r"
| "storeObject r (kv # kvs) =
     (case storeField r kv of
        None \<Rightarrow> None
      | Some r' \<Rightarrow> storeObject r' kvs)"

text \<open>An element of the array starts as the zero value of the struct.\<close>

definition zeroRelease :: release where
  "zeroRelease = \<lparr>Version = [], Stable = False\<rparr>"

fun storeElement :: "json \<Rightarrow> release option" where
  "storeElement (JObject kvs) = storeObject zeroRelease kvs"
| "storeElement JNull = Some zeroRelease"
| "storeElement _ = None"

fun storeElements :: "json list \<Rightarrow> goReleases option" where
  "storeElements [] = Some []"
| "storeElements (x # xs) =
     (case storeElement x of
        None \<Rightarrow> None
      | Some r \<Rightarrow> map_option ((#) r) (storeElements xs))"

fun store :: "json \<Rightarrow> goReleases option" where
  "store (JArray xs) = storeElements xs"
| "store JNull = Some []"
| "store _ = None"

text \<open>
  The two errors of \<open>json.Unmarshal\<close>: the input is no JSON text, or it is one that does
  not fit the target type.
\<close>

datatype json_error = SyntaxError | UnmarshalTypeError

definition Unmarshal :: "string \<Rightarrow> json_error + goReleases" where
  "Unmarshal s =
     (case parse s of
        None \<Rightarrow> Inl SyntaxError
      | Some j \<Rightarrow>
          (case store j of
             None \<Rightarrow> Inl UnmarshalTypeError
           | Some rs \<Rightarrow> Inr rs))"

subsection \<open>Errors\<close>

text \<open>
  The message of the log line and of the user error of \<open>buildFn\<close>, which share their
  format string.
\<close>

definition notFound :: "string \<Rightarrow> string \<Rightarrow> int \<Rightarrow> string \<Rightarrow> string" where
  "notFound version url code var =
     Sprintf ''Runtime version %s does not exist at %s (status %d). You can specify the version with %s.''
       [S version, S url, D code, S var]"

text \<open>
  The error values the source builds, one constructor for each call that builds one, with
  the operands of the call. \<open>Error\<close> is the message: the format strings are those of the
  source; the text of a \<open>json\<close> error belongs to the standard library and is a parameter.
\<close>

datatype error =
  ParsingJSON string json_error
  | ParsingLatest string
  | GettingLatest error
  | UserError string string int string

fun Error :: "(json_error \<Rightarrow> string) \<Rightarrow> error \<Rightarrow> string" where
  "Error txt (ParsingJSON url err) =
     Sprintf ''parsing JSON response from URL %q: %v'' [S url, S (txt err)]"
| "Error txt (ParsingLatest url) =
     Sprintf ''parsing latest stable version from %q'' [S url]"
| "Error txt (GettingLatest err) =
     Sprintf ''getting latest version: %w'' [S (Error txt err)]"
| "Error txt (UserError version url code var) = notFound version url code var"

text \<open>
  Modelled from the spec: \<open>ctx.Exec\<close> of \<open>pkg/gcpbuildpack\<close> returns the result of a
  command that succeeded; a command that fails ends the build with an execution error, which
  no caller handles. So a build stops either because a function returned an error or because
  \<open>ctx.Exec\<close> ended it, with the command line that failed.
\<close>

datatype failure = Returned error | Exited "string list"

subsection \<open>The collaborators\<close>

text \<open>
  Modelled from the spec: the network policy that \<open>golang.DetectNetwork\<close> of
  \<open>pkg/golang\<close> reports, an enumeration of two values.
\<close>

datatype UserNetwork = DefaultUserNetwork | AlternativeUserNetwork

text \<open>
  Modelled from the spec: what one build finds around it, through \<open>pkg/env\<close>,
  \<open>pkg/golang\<close>, \<open>pkg/gcpbuildpack\<close> and the operating system.
  \<open>RuntimeVersion\<close> is the name of the override variable (the constant
  \<open>env.RuntimeVersion\<close>) and \<open>Getenv\<close> is \<open>os.Getenv\<close>, empty for a variable that is
  not set. \<open>GoModVersion\<close> is the version the manifest declares, empty when it declares
  none; \<open>DetectNetwork\<close> is the network policy. \<open>HTTPStatus\<close> is the status code a
  probe of a URL returns. \<open>Exec\<close> gives, for a command line, whether the command succeeds
  and its standard output; \<open>Unpacked\<close> gives the files a command line leaves in the layer
  directory.
\<close>

record Context =
  RuntimeVersion :: string
  Getenv :: "string \<Rightarrow> string"
  GoModVersion :: string
  DetectNetwork :: UserNetwork
  HTTPStatus :: "string \<Rightarrow> int"
  Exec :: "string list \<Rightarrow> bool \<times> string"
  Unpacked :: "string list \<Rightarrow> string set"

text \<open>
  Modelled from the spec: the layer that \<open>ctx.Layer\<close> returns, a directory (its path and
  the files in it) with a key-value metadata store that persists across builds.
\<close>

record layer =
  Path :: string
  Metadata :: "string \<rightharpoonup> string"
  Contents :: "string set"

text \<open>
  Modelled from the spec: \<open>ctx.GetMetadata\<close> reads a key of the store; a key that was
  never written reads as the empty string.
\<close>

definition GetMetadata :: "layer \<Rightarrow> string \<Rightarrow> string" where
  "GetMetadata l k = (case Metadata l k of None \<Rightarrow> [] | Some v \<Rightarrow> v)"

text \<open>Modelled from the spec: \<open>ctx.SetMetadata\<close> writes a key of the store.\<close>

definition SetMetadata :: "layer \<Rightarrow> string \<Rightarrow> string \<Rightarrow> layer" where
  "SetMetadata l k v = l\<lparr>Metadata := (Metadata l)(k \<mapsto> v)\<rparr>"

text \<open>
  Modelled from the spec: \<open>ctx.ClearLayer\<close> removes every file of the layer directory and
  leaves the metadata store as it is.
\<close>

definition ClearLayer :: "layer \<Rightarrow> layer" where
  "ClearLayer l = l\<lparr>Contents := {}\<rparr>"

text \<open>
  Every call on the build context is recorded as an event, in the order of the calls: a log
  line, the cache signals, the wipe of the layer, a probe with the status it returned, a
  command with its success and the files it wrote into the layer, and the metadata write.
  The layer after a sequence of events is the layer before it with the effect of each event
  applied in turn; a build that is interrupted has made a prefix of its events.
\<close>

datatype event =
  Logf string
  | CacheHit string
  | CacheMiss string
  | Cleared
  | Probed string int
  | Ran "string list" bool "string set"
  | MetadataSet string string

fun effect :: "event \<Rightarrow> layer \<Rightarrow> layer" where
  "effect Cleared l = ClearLayer l"
| "effect (Ran argv ok written) l = l\<lparr>Contents := Contents l \<union> written\<rparr>"
| "effect (MetadataSet k v) l = SetMetadata l k v"
| "effect _ l = l"

definition after :: "event list \<Rightarrow> layer \<Rightarrow> layer" where
  "after t l = fold effect t l"

subsection \<open>\<open>parseVersionJSON\<close> and \<open>latestGoVersion\<close>\<close>

text \<open>
  The loop of \<open>parseVersionJSON\<close> over the decoded releases: an unstable release is
  skipped, and so is one whose version is empty once the prefix \<open>go\<close> is trimmed; the
  first other one is returned.
\<close>

fun firstStable :: "goReleases \<Rightarrow> string option" where
  "firstStable [] = None"
| "firstStable (release # releases) =
     (if \<not> Stable release then firstStable releases
      else
        (let v = TrimPrefix (Version release) ''go'' in
         if v \<noteq> [] then Some v else firstStable releases))"

definition parseVersionJSON :: "string \<Rightarrow> error + string" where
  "parseVersionJSON jsonStr =
     (case Unmarshal jsonStr of
        Inl err \<Rightarrow> Inl (ParsingJSON goVersionURL err)
      | Inr releases \<Rightarrow>
          (case firstStable releases of
             Some v \<Rightarrow> Inr v
           | None \<Rightarrow> Inl (ParsingLatest goVersionURL)))"

definition catalogCommand :: "string \<Rightarrow> string list" where
  "catalogCommand url =
     [''curl'', ''--fail'', ''--show-error'', ''--silent'', ''--location'', url]"

definition finalGoVersionURL :: "Context \<Rightarrow> string" where
  "finalGoVersionURL ctx =
     (if DetectNetwork ctx = AlternativeUserNetwork then goAltVersionURL else goVersionURL)"

text \<open>
  The catalog is fetched by a command that writes to its standard output only; when the
  command fails, \<open>ctx.Exec\<close> ends the build.
\<close>

definition latestGoVersion :: "Context \<Rightarrow> (failure + string) \<times> event list" where
  "latestGoVersion ctx =
     (let argv = catalogCommand (finalGoVersionURL ctx);
          (ok, stdout) = Exec ctx argv
      in if \<not> ok then (Inl (Exited argv), [Ran argv False {}])
         else
           (case parseVersionJSON stdout of
              Inl err \<Rightarrow> (Inl (Returned err), [Ran argv True {}])
            | Inr version \<Rightarrow> (Inr version, [Ran argv True {}])))"

subsection \<open>\<open>runtimeVersion\<close>\<close>

definition runtimeVersion :: "Context \<Rightarrow> (failure + string) \<times> event list" where
  "runtimeVersion ctx =
     (let version = Getenv ctx (RuntimeVersion ctx) in
      if version \<noteq> [] then
        (Inr version,
         [Logf (Sprintf ''Using runtime version from %s: %s'' [S (RuntimeVersion ctx), S version])])
      else
        (let version = GoModVersion ctx in
         if version \<noteq> [] then
           (Inr version, [Logf (Sprintf ''Using runtime version from go.mod: %s'' [S version])])
         else
           (case latestGoVersion ctx of
              (Inl (Returned err), t) \<Rightarrow> (Inl (Returned (GettingLatest err)), t)
            | (Inl (Exited argv), t) \<Rightarrow> (Inl (Exited argv), t)
            | (Inr version, t) \<Rightarrow>
                (Inr version, t @ [Logf (Sprintf ''Using latest runtime version: %s'' [S version])]))))"

subsection \<open>\<open>buildFn\<close>\<close>

definition installCommand :: "string \<Rightarrow> string \<Rightarrow> string list" where
  "installCommand finalArchiveURL path =
     [''bash'', ''-c'',
      Sprintf ''curl --fail --show-error --silent --location --retry 3 %s | tar xz --directory %s --strip-components=1''
        [S finalArchiveURL, S path]]"

definition archiveURL :: "string \<Rightarrow> string" where
  "archiveURL version = Sprintf goURL [S version]"

definition archiveAltURL :: "string \<Rightarrow> string" where
  "archiveAltURL version = Sprintf goAltURL [S version]"

text \<open>
  The two probes of \<open>buildFn\<close>: the URL to download from, or the user error when neither
  mirror answers 200, with the events of the probes.
\<close>

definition probeArchive :: "Context \<Rightarrow> string \<Rightarrow> (error + string) \<times> event list" where
  "probeArchive ctx version =
     (let code = HTTPStatus ctx (archiveURL version)
      in if code \<noteq> StatusOK then
           (let line = Logf (notFound version (archiveURL version) code (RuntimeVersion ctx));
                code' = HTTPStatus ctx (archiveAltURL version)
            in if code' \<noteq> StatusOK then
                 (Inl (UserError version (archiveAltURL version) code' (RuntimeVersion ctx)),
                  [Probed (archiveURL version) code, line, Probed (archiveAltURL version) code'])
               else
                 (Inr (archiveAltURL version),
                  [Probed (archiveURL version) code, line, Probed (archiveAltURL version) code']))
         else (Inr (archiveURL version), [Probed (archiveURL version) code]))"

text \<open>
  The download of \<open>buildFn\<close>: the log line, the shell pipeline that streams the
  archive into the layer directory, and the metadata write. When the pipeline fails,
  \<open>ctx.Exec\<close> ends the build and the metadata write is not reached.
\<close>

definition installGo ::
  "Context \<Rightarrow> layer \<Rightarrow> string \<Rightarrow> string \<Rightarrow> failure option \<times> event list" where
  "installGo ctx grl version finalArchiveURL =
     (let line = Logf (Sprintf ''Installing Go v%s'' [S version]);
          argv = installCommand finalArchiveURL (Path grl);
          (ok, stdout) = Exec ctx argv;
          ran = Ran argv ok (Unpacked ctx argv)
      in if \<not> ok then (Some (Exited argv), [line, ran])
         else (None, [line, ran, MetadataSet versionKey version]))"

text \<open>
  \<open>buildFn\<close> on the layer \<open>grl\<close> that \<open>ctx.Layer\<close> returns: the error it ends with, if
  any, and its events. The layer it leaves is \<open>after\<close> its events.
\<close>

definition buildFn :: "Context \<Rightarrow> layer \<Rightarrow> failure option \<times> event list" where
  "buildFn ctx grl =
     (case runtimeVersion ctx of
        (Inl err, t) \<Rightarrow> (Some err, t)
      | (Inr version, t) \<Rightarrow>
          (let metaVersion = GetMetadata grl versionKey in
           if version = metaVersion then (None, t @ [CacheHit goLayer])
           else
             (case probeArchive ctx version of
                (Inl err, p) \<Rightarrow> (Some (Returned err), t @ [CacheMiss goLayer, Cleared] @ p)
              | (Inr finalArchiveURL, p) \<Rightarrow>
                  (let (err, d) = installGo ctx grl version finalArchiveURL
                   in (err, t @ [CacheMiss goLayer, Cleared] @ p @ d)))))"

definition layerAfter :: "Context \<Rightarrow> layer \<Rightarrow> layer" where
  "layerAfter ctx grl = after (snd (buildFn ctx grl)) grl"

section \<open>Example inputs\<close>

subsection \<open>A catalog, a context and a layer\<close>

text \<open>
  The example catalog, a build context without override and manifest version in which
  every probe answers 200 and every command succeeds, and a layer that records an older
  version.
\<close>

definition exampleCatalog :: string where
  "exampleCatalog = ''[{\"version\":\"go1.21.0\",\"stable\":false},{\"version\":\"go1.20.5\",\"stable\":true}]''"

definition exampleContext :: Context where
  "exampleContext =
     \<lparr>RuntimeVersion = ''GOOGLE_RUNTIME_VERSION'',
      Getenv = (\<lambda>_. []),
      GoModVersion = [],
      DetectNetwork = DefaultUserNetwork,
      HTTPStatus = (\<lambda>_. 200),
      Exec = (\<lambda>_. (True, exampleCatalog)),
      Unpacked = (\<lambda>_. {''bin/go''})\<rparr>"

definition exampleLayer :: layer where
  "exampleLayer =
     \<lparr>Path = ''/layers/go'', Metadata = [versionKey \<mapsto> ''1.19.0''], Contents = {''bin/go'', ''VERSION''}\<rparr>"

subsection \<open>Further example contexts\<close>

text \<open>
  \<open>overrideContext\<close> sets the override variable (and a manifest version, which must
  lose); \<open>manifestContext\<close> has only the manifest version.
\<close>

definition overrideContext :: Context where
  "overrideContext =
     exampleContext\<lparr>Getenv := (\<lambda>k. if k = ''GOOGLE_RUNTIME_VERSION'' then ''go1.16rc1'' else []),
       GoModVersion := ''1.15''\<rparr>"

definition manifestContext :: Context where
  "manifestContext = exampleContext\<lparr>GoModVersion := ''1.15''\<rparr>"

text \<open>\<open>downContext\<close>: neither mirror has the archive.\<close>

definition downContext :: Context where
  "downContext = exampleContext\<lparr>HTTPStatus := (\<lambda>_. 404)\<rparr>"

text \<open>\<open>brokenContext\<close>: the download pipeline fails and leaves a partial tree.\<close>

definition brokenContext :: Context where
  "brokenContext =
     exampleContext\<lparr>Exec := (\<lambda>argv. if take 1 argv = [''bash''] then (False, []) else (True, exampleCatalog))\<rparr>"

text \<open>
  \<open>altContext\<close>: the alternative network policy, both mirrors up. \<open>fallbackContext\<close>:
  the primary mirror lacks the archive. \<open>altEmptyContext\<close>: the alternative network policy
  and a catalog without releases.
\<close>

definition altContext :: Context where
  "altContext = exampleContext\<lparr>DetectNetwork := AlternativeUserNetwork\<rparr>"

definition fallbackContext :: Context where
  "fallbackContext =
     exampleContext\<lparr>HTTPStatus := (\<lambda>url. if url = archiveURL ''1.20.5'' then 404 else 200)\<rparr>"

definition altEmptyContext :: Context where
  "altEmptyContext =
     exampleContext\<lparr>DetectNetwork := AlternativeUserNetwork, Exec := (\<lambda>_. (True, ''[]''))\<rparr>"

text \<open>
  \<open>revertContext\<close>: the manifest declares the older version that \<open>exampleLayer\<close>
  records.
\<close>

definition revertContext :: Context where
  "revertContext = exampleContext\<lparr>GoModVersion := ''1.19.0''\<rparr>"

subsection \<open>Predicates on releases and events\<close>

text \<open>
  In the words of the spec: a release is usable when it is stable and its version is not
  empty once the prefix \<open>go\<close> is trimmed.
\<close>

definition usable :: "release \<Rightarrow> bool" where
  "usable r = (Stable r \<and> TrimPrefix (Version r) ''go'' \<noteq> [])"

text \<open>
  An event is inert when it leaves every layer as it is: a log line, or a command that
  writes no file into the layer.
\<close>

definition inert :: "event \<Rightarrow> bool" where
  "inert e = (case e of Logf s \<Rightarrow> True | Ran argv ok w \<Rightarrow> w = {} | _ \<Rightarrow> False)"

text \<open>An event that runs a command.\<close>

definition fetches :: "event \<Rightarrow> bool" where
  "fetches e = (case e of Ran argv ok w \<Rightarrow> True | _ \<Rightarrow> False)"

text \<open>An event that writes metadata.\<close>

definition writesMetadata :: "event \<Rightarrow> bool" where
  "writesMetadata e = (case e of MetadataSet k v \<Rightarrow> True | _ \<Rightarrow> False)"

section \<open>Facts about the model\<close>

subsection \<open>Facts about the resolver and the events\<close>

lemma firstStable_find:
  "firstStable rs = map_option (\<lambda>r. TrimPrefix (Version r) ''go'') (find usable rs)"
  by (induction rs) (auto simp: usable_def Let_def)

lemma firstStable_nonempty: "firstStable rs = Some v \<Longrightarrow> v \<noteq> []"
  by (induction rs) (auto simp: Let_def split: if_splits)

lemma Unmarshal_exampleCatalog:
  "Unmarshal exampleCatalog =
     Inr [\<lparr>Version = ''go1.21.0'', Stable = False\<rparr>, \<lparr>Version = ''go1.20.5'', Stable = True\<rparr>]"
  unfolding exampleCatalog_def by code_simp

lemma parseVersionJSON_exampleCatalog: "parseVersionJSON exampleCatalog = Inr ''1.20.5''"
  by (simp add: parseVersionJSON_def Unmarshal_exampleCatalog TrimPrefix_def)

lemma runtimeVersion_exampleContext:
  "runtimeVersion exampleContext =
     (Inr ''1.20.5'',
      [Ran (catalogCommand goVersionURL) True {}, Logf ''Using latest runtime version: 1.20.5''])"
  by (simp add: runtimeVersion_def latestGoVersion_def exampleContext_def finalGoVersionURL_def
      parseVersionJSON_exampleCatalog)

lemma parseVersionJSON_nonempty: "parseVersionJSON s = Inr v \<Longrightarrow> v \<noteq> []"
  by (auto simp: parseVersionJSON_def split: sum.splits option.splits dest: firstStable_nonempty)

lemma latestGoVersion_cases:
  "latestGoVersion ctx = (r, t) \<Longrightarrow>
     (\<exists>ok. t = [Ran (catalogCommand (finalGoVersionURL ctx)) ok {}])"
  by (auto simp: latestGoVersion_def Let_def split: prod.splits if_splits sum.splits)

lemma latestGoVersion_nonempty: "latestGoVersion ctx = (Inr v, t) \<Longrightarrow> v \<noteq> []"
  by (auto simp: latestGoVersion_def Let_def split: prod.splits if_splits sum.splits
      dest: parseVersionJSON_nonempty)

lemma runtimeVersion_nonempty: "runtimeVersion ctx = (Inr v, t) \<Longrightarrow> v \<noteq> []"
  by (auto simp: runtimeVersion_def Let_def
      split: prod.splits if_splits sum.splits failure.splits dest: latestGoVersion_nonempty)

lemma runtimeVersion_events:
  "runtimeVersion ctx = (r, t) \<Longrightarrow> e \<in> set t \<Longrightarrow>
     (\<exists>s. e = Logf s) \<or> (\<exists>ok. e = Ran (catalogCommand (finalGoVersionURL ctx)) ok {})"
  by (auto simp: runtimeVersion_def Let_def
      split: prod.splits if_splits sum.splits failure.splits dest!: latestGoVersion_cases)

lemma after_append: "after (xs @ ys) l = after ys (after xs l)"
  by (simp add: after_def)

lemma after_Nil: "after [] l = l"
  by (simp add: after_def)

lemma after_Cons: "after (e # es) l = after es (effect e l)"
  by (simp add: after_def)

lemma effect_inert: "inert e \<Longrightarrow> effect e l = l"
  by (cases e) (auto simp: inert_def)

lemma after_inert: "\<forall>e \<in> set t. inert e \<Longrightarrow> after t l = l"
  by (induction t arbitrary: l) (auto simp: after_Nil after_Cons effect_inert)

lemma runtimeVersion_inert: "runtimeVersion ctx = (r, t) \<Longrightarrow> \<forall>e \<in> set t. inert e"
  by (auto simp: inert_def dest!: runtimeVersion_events)

lemma after_runtimeVersion: "runtimeVersion ctx = (r, t) \<Longrightarrow> after t l = l"
  by (rule after_inert) (rule runtimeVersion_inert)

subsection \<open>Facts about \<open>buildFn\<close>\<close>

lemma probeArchive_cases:
  "probeArchive ctx v =
     (if HTTPStatus ctx (archiveURL v) = StatusOK then
        (Inr (archiveURL v), [Probed (archiveURL v) StatusOK])
      else if HTTPStatus ctx (archiveAltURL v) = StatusOK then
        (Inr (archiveAltURL v),
         [Probed (archiveURL v) (HTTPStatus ctx (archiveURL v)),
          Logf (notFound v (archiveURL v) (HTTPStatus ctx (archiveURL v)) (RuntimeVersion ctx)),
          Probed (archiveAltURL v) StatusOK])
      else
        (Inl (UserError v (archiveAltURL v) (HTTPStatus ctx (archiveAltURL v)) (RuntimeVersion ctx)),
         [Probed (archiveURL v) (HTTPStatus ctx (archiveURL v)),
          Logf (notFound v (archiveURL v) (HTTPStatus ctx (archiveURL v)) (RuntimeVersion ctx)),
          Probed (archiveAltURL v) (HTTPStatus ctx (archiveAltURL v))]))"
  by (simp add: probeArchive_def Let_def)

lemma notFound_text:
  "notFound v url code var =
     ''Runtime version '' @ v @ '' does not exist at '' @ url @ '' (status '' @ Itoa code @
     ''). You can specify the version with '' @ var @ ''.''"
  by (simp add: notFound_def)

lemma notFound_names_url: "sublist url (notFound v url code var)"
  unfolding notFound_text sublist_def
  by (rule exI [of _ "''Runtime version '' @ v @ '' does not exist at ''"], rule exI) simp

lemma notFound_names_code: "sublist (Itoa code) (notFound v url code var)"
  unfolding notFound_text sublist_def
  by (rule exI [of _ "''Runtime version '' @ v @ '' does not exist at '' @ url @ '' (status ''"],
      rule exI) simp

lemma notFound_names_var: "sublist var (notFound v url code var)"
  unfolding notFound_text sublist_def
  by (rule exI [of _ "''Runtime version '' @ v @ '' does not exist at '' @ url @ '' (status '' @
        Itoa code @ ''). You can specify the version with ''"], rule exI [of _ "''.''"]) simp

lemma installGo_cases:
  "installGo ctx grl v url =
     (if fst (Exec ctx (installCommand url (Path grl))) then
        (None, [Logf (Sprintf ''Installing Go v%s'' [S v]),
                Ran (installCommand url (Path grl)) True (Unpacked ctx (installCommand url (Path grl))),
                MetadataSet versionKey v])
      else
        (Some (Exited (installCommand url (Path grl))),
         [Logf (Sprintf ''Installing Go v%s'' [S v]),
          Ran (installCommand url (Path grl)) False (Unpacked ctx (installCommand url (Path grl)))]))"
  by (simp add: installGo_def Let_def split: prod.splits)

lemma buildFn_error: "runtimeVersion ctx = (Inl err, t) \<Longrightarrow> buildFn ctx grl = (Some err, t)"
  by (simp add: buildFn_def)

lemma buildFn_hit:
  "runtimeVersion ctx = (Inr v, t) \<Longrightarrow> GetMetadata grl versionKey = v \<Longrightarrow>
     buildFn ctx grl = (None, t @ [CacheHit goLayer])"
  by (simp add: buildFn_def)

lemma buildFn_miss:
  "runtimeVersion ctx = (Inr v, t) \<Longrightarrow> GetMetadata grl versionKey \<noteq> v \<Longrightarrow>
     buildFn ctx grl =
       (case fst (probeArchive ctx v) of
          Inl err \<Rightarrow> (Some (Returned err), t @ [CacheMiss goLayer, Cleared] @ snd (probeArchive ctx v))
        | Inr url \<Rightarrow>
            (fst (installGo ctx grl v url),
             t @ [CacheMiss goLayer, Cleared] @ snd (probeArchive ctx v) @ snd (installGo ctx grl v url)))"
  by (auto simp: buildFn_def Let_def split: prod.splits sum.splits)

subsection \<open>Facts about the builds\<close>

lemma parseVersionJSON_find:
  "Unmarshal body = Inr releases \<Longrightarrow>
     parseVersionJSON body =
       (case find usable releases of
          Some r \<Rightarrow> Inr (TrimPrefix (Version r) ''go'')
        | None \<Rightarrow> Inl (ParsingLatest goVersionURL))"
  by (simp add: parseVersionJSON_def firstStable_find split: option.splits)

lemma Unmarshal_empty_array: "Unmarshal ''[]'' = Inr []"
  by code_simp

lemma installCommand_text:
  "installCommand url path =
     [''bash'', ''-c'',
      ''curl --fail --show-error --silent --location --retry 3 '' @ url @
      '' | tar xz --directory '' @ path @ '' --strip-components=1'']"
  by (simp add: installCommand_def)

lemma installGo_events:
  "e \<in> set (snd (installGo ctx grl v url)) \<Longrightarrow>
     (\<exists>s. e = Logf s) \<or> (\<exists>ok w. e = Ran (installCommand url (Path grl)) ok w) \<or>
     e = MetadataSet versionKey v"
  by (auto simp: installGo_cases split: if_splits)

lemma probeArchive_events:
  "e \<in> set (snd (probeArchive ctx v)) \<Longrightarrow> (\<exists>s. e = Logf s) \<or> (\<exists>u c. e = Probed u c)"
  by (auto simp: probeArchive_cases split: if_splits)

lemma runtimeVersion_no_hit:
  "runtimeVersion ctx = (r, t) \<Longrightarrow> CacheHit k \<notin> set t"
  by (auto dest: runtimeVersion_events)

lemma archiveURL_example:
  "archiveURL ''1.20.5'' = ''https://dl.google.com/go/go1.20.5.linux-amd64.tar.gz''"
  by (simp add: archiveURL_def goURL_def)

lemma archiveAltURL_example:
  "archiveAltURL ''1.20.5'' = ''https://golang.google.cn/dl/go1.20.5.linux-amd64.tar.gz''"
  by (simp add: archiveAltURL_def goAltURL_def)

lemma runtimeVersion_downContext:
  "runtimeVersion downContext = runtimeVersion exampleContext"
  by (simp add: runtimeVersion_def latestGoVersion_def downContext_def finalGoVersionURL_def
      exampleContext_def)

lemma GetMetadata_exampleLayer: "GetMetadata exampleLayer versionKey = ''1.19.0''"
  by (simp add: GetMetadata_def exampleLayer_def)

lemma Itoa_404: "Itoa 404 = ''404''"
  by code_simp

lemma after_probeArchive: "after (snd (probeArchive ctx v)) l = l"
  by (simp add: probeArchive_cases after_Cons after_Nil)

lemma after_installGo:
  "after (snd (installGo ctx grl v url)) l =
     (if fst (Exec ctx (installCommand url (Path grl))) then
        SetMetadata (l\<lparr>Contents := Contents l \<union> Unpacked ctx (installCommand url (Path grl))\<rparr>)
          versionKey v
      else l\<lparr>Contents := Contents l \<union> Unpacked ctx (installCommand url (Path grl))\<rparr>)"
  by (simp add: installGo_cases after_Cons after_Nil)

lemma layerAfter_cases:
  "layerAfter ctx grl =
     (case fst (runtimeVersion ctx) of
        Inl err \<Rightarrow> grl
      | Inr v \<Rightarrow>
          if GetMetadata grl versionKey = v then grl
          else
            (case fst (probeArchive ctx v) of
               Inl err \<Rightarrow> ClearLayer grl
             | Inr url \<Rightarrow>
                 if fst (Exec ctx (installCommand url (Path grl))) then
                   SetMetadata
                     (grl\<lparr>Contents := Unpacked ctx (installCommand url (Path grl))\<rparr>) versionKey v
                 else grl\<lparr>Contents := Unpacked ctx (installCommand url (Path grl))\<rparr>))"
proof (cases "runtimeVersion ctx")
  case (Pair r t)
  show ?thesis
  proof (cases r)
    case (Inl err)
    with Pair show ?thesis
      by (simp add: layerAfter_def buildFn_error after_runtimeVersion)
  next
    case (Inr v)
    note rv = Pair [unfolded Inr]
    show ?thesis
    proof (cases "GetMetadata grl versionKey = v")
      case True
      with rv show ?thesis
        by (simp add: layerAfter_def buildFn_hit after_append after_runtimeVersion after_Cons
            after_Nil)
    next
      case False
      with rv show ?thesis
        by (simp add: layerAfter_def buildFn_miss after_append after_runtimeVersion after_Cons
            after_Nil after_probeArchive after_installGo ClearLayer_def SetMetadata_def
            split: sum.splits)
    qed
  qed
qed

lemma layerAfter_idem: "layerAfter ctx (layerAfter ctx grl) = layerAfter ctx grl"
  by (simp add: layerAfter_cases [of ctx "layerAfter ctx grl"])
    (auto simp: layerAfter_cases [of ctx grl] GetMetadata_def SetMetadata_def ClearLayer_def
      split: sum.splits)

lemma buildFn_success:
  assumes "buildFn ctx grl = (None, t)"
  obtains v where "fst (runtimeVersion ctx) = Inr v" "GetMetadata (after t grl) versionKey = v"
proof (cases "runtimeVersion ctx")
  case (Pair r t0)
  show ?thesis
  proof (cases r)
    case (Inl err)
    with Pair assms show ?thesis
      by (simp add: buildFn_error)
  next
    case (Inr v)
    note rv = Pair [unfolded Inr]
    show ?thesis
    proof (cases "GetMetadata grl versionKey = v")
      case True
      with rv assms have "t = t0 @ [CacheHit goLayer]"
        by (simp add: buildFn_hit)
      with True rv have "GetMetadata (after t grl) versionKey = v"
        by (simp add: after_append after_runtimeVersion after_Cons after_Nil)
      with rv that show ?thesis by simp
    next
      case False
      from assms obtain url where
        t: "t = t0 @ [CacheMiss goLayer, Cleared] @ snd (probeArchive ctx v) @
              snd (installGo ctx grl v url)"
        and ok: "fst (Exec ctx (installCommand url (Path grl)))"
        by (auto simp: buildFn_miss [OF rv False] installGo_cases split: sum.splits if_splits)
      have "GetMetadata (after t grl) versionKey = v"
        by (simp add: t ok after_append after_runtimeVersion [OF rv] after_Cons after_Nil
            after_probeArchive after_installGo GetMetadata_def SetMetadata_def)
      with rv that show ?thesis by simp
    qed
  qed
qed

lemma buildFn_exampleContext:
  "buildFn exampleContext exampleLayer =
     (None,
      [Ran (catalogCommand goVersionURL) True {}, Logf ''Using latest runtime version: 1.20.5'',
       CacheMiss goLayer, Cleared, Probed (archiveURL ''1.20.5'') StatusOK,
       Logf ''Installing Go v1.20.5'',
       Ran (installCommand (archiveURL ''1.20.5'') ''/layers/go'') True {''bin/go''},
       MetadataSet versionKey ''1.20.5''])"
proof -
  have m: "GetMetadata exampleLayer versionKey \<noteq> ''1.20.5''"
    by (simp add: GetMetadata_exampleLayer)
  show ?thesis
    by (simp add: buildFn_miss [OF runtimeVersion_exampleContext m] probeArchive_cases
        installGo_cases)
      (simp add: exampleContext_def exampleLayer_def StatusOK_def)
qed

lemma after_no_write:
  "\<forall>e \<in> set es. \<not> writesMetadata e \<Longrightarrow> Metadata (after es l) = Metadata l"
proof (induction es arbitrary: l)
  case Nil
  then show ?case by (simp add: after_Nil)
next
  case (Cons e es)
  then have "Metadata (effect e l) = Metadata l"
    by (cases e) (auto simp: writesMetadata_def ClearLayer_def)
  with Cons show ?case by (simp add: after_Cons)
qed

lemma runtimeVersion_no_write:
  "runtimeVersion ctx = (r, t) \<Longrightarrow> e \<in> set t \<Longrightarrow> \<not> writesMetadata e"
  by (auto simp: writesMetadata_def dest: runtimeVersion_events)

lemma probeArchive_no_write:
  "e \<in> set (snd (probeArchive ctx v)) \<Longrightarrow> \<not> writesMetadata e"
  by (auto simp: writesMetadata_def dest: probeArchive_events)

text \<open>
  The events of a cache-miss build: a part that writes no metadata and, exactly when the
  build succeeds, the metadata write as the last event, after the download has succeeded
  into the wiped layer.
\<close>

lemma buildFn_miss_shape:
  assumes rv: "runtimeVersion ctx = (Inr v, t)" and miss: "GetMetadata grl versionKey \<noteq> v"
  obtains (failed) "fst (buildFn ctx grl) \<noteq> None"
      "\<forall>e \<in> set (snd (buildFn ctx grl)). \<not> writesMetadata e"
    | (installed) pre url where "fst (buildFn ctx grl) = None"
      "snd (buildFn ctx grl) = pre @ [MetadataSet versionKey v]"
      "\<forall>e \<in> set pre. \<not> writesMetadata e"
      "fst (Exec ctx (installCommand url (Path grl)))"
      "Ran (installCommand url (Path grl)) True (Unpacked ctx (installCommand url (Path grl)))
         \<in> set pre"
      "Contents (after pre grl) = Unpacked ctx (installCommand url (Path grl))"
proof (cases "fst (probeArchive ctx v)")
  case (Inl err)
  then have "fst (buildFn ctx grl) \<noteq> None"
    "\<forall>e \<in> set (snd (buildFn ctx grl)). \<not> writesMetadata e"
    using runtimeVersion_no_write [OF rv] probeArchive_no_write [of _ ctx v]
    by (auto simp: buildFn_miss [OF rv miss] writesMetadata_def)
  then show ?thesis by (rule failed)
next
  case (Inr url)
  show ?thesis
  proof (cases "fst (Exec ctx (installCommand url (Path grl)))")
    case False
    with Inr have "fst (buildFn ctx grl) \<noteq> None"
      "\<forall>e \<in> set (snd (buildFn ctx grl)). \<not> writesMetadata e"
      using runtimeVersion_no_write [OF rv] probeArchive_no_write [of _ ctx v]
      by (auto simp: buildFn_miss [OF rv miss] installGo_cases writesMetadata_def)
    then show ?thesis by (rule failed)
  next
    case True
    define pre where "pre = t @ [CacheMiss goLayer, Cleared] @ snd (probeArchive ctx v) @
      [Logf (Sprintf ''Installing Go v%s'' [S v]),
       Ran (installCommand url (Path grl)) True (Unpacked ctx (installCommand url (Path grl)))]"
    have 1: "fst (buildFn ctx grl) = None"
      using Inr True by (simp add: buildFn_miss [OF rv miss] installGo_cases)
    have 2: "snd (buildFn ctx grl) = pre @ [MetadataSet versionKey v]"
      using Inr True by (simp add: buildFn_miss [OF rv miss] installGo_cases pre_def)
    have 3: "\<forall>e \<in> set pre. \<not> writesMetadata e"
      using runtimeVersion_no_write [OF rv] probeArchive_no_write [of _ ctx v]
      by (auto simp: pre_def writesMetadata_def)
    have 4: "Ran (installCommand url (Path grl)) True (Unpacked ctx (installCommand url (Path grl)))
         \<in> set pre"
      by (simp add: pre_def)
    have 5: "Contents (after pre grl) = Unpacked ctx (installCommand url (Path grl))"
      by (simp add: pre_def after_append after_runtimeVersion [OF rv] after_Cons after_Nil
          after_probeArchive ClearLayer_def)
    from 1 2 3 True 4 5 show ?thesis by (rule installed)
  qed
qed

lemma take_no_write:
  "\<forall>e \<in> set es. \<not> writesMetadata e \<Longrightarrow> \<forall>e \<in> set (take n es). \<not> writesMetadata e"
  by (auto dest: in_set_takeD)

lemma runtimeVersion_brokenContext:
  "runtimeVersion brokenContext =
     (Inr ''1.20.5'',
      [Ran (catalogCommand goVersionURL) True {}, Logf ''Using latest runtime version: 1.20.5''])"
  by (simp add: runtimeVersion_def latestGoVersion_def brokenContext_def exampleContext_def
      finalGoVersionURL_def parseVersionJSON_exampleCatalog catalogCommand_def)

lemma buildFn_brokenContext:
  "buildFn brokenContext exampleLayer =
     (Some (Exited (installCommand (archiveURL ''1.20.5'') ''/layers/go'')),
      [Ran (catalogCommand goVersionURL) True {}, Logf ''Using latest runtime version: 1.20.5'',
       CacheMiss goLayer, Cleared, Probed (archiveURL ''1.20.5'') StatusOK,
       Logf ''Installing Go v1.20.5'',
       Ran (installCommand (archiveURL ''1.20.5'') ''/layers/go'') False {''bin/go''}])"
proof -
  have m: "GetMetadata exampleLayer versionKey \<noteq> ''1.20.5''"
    by (simp add: GetMetadata_exampleLayer)
  show ?thesis
    by (simp add: buildFn_miss [OF runtimeVersion_brokenContext m] probeArchive_cases
        installGo_cases)
      (simp add: brokenContext_def exampleContext_def exampleLayer_def StatusOK_def
        installCommand_def)
qed

lemma runtimeVersion_altContext:
  "runtimeVersion altContext =
     (Inr ''1.20.5'',
      [Ran (catalogCommand goAltVersionURL) True {}, Logf ''Using latest runtime version: 1.20.5''])"
  by (simp add: runtimeVersion_def latestGoVersion_def altContext_def exampleContext_def
      finalGoVersionURL_def parseVersionJSON_exampleCatalog)

lemma runtimeVersion_fallbackContext:
  "runtimeVersion fallbackContext =
     (Inr ''1.20.5'',
      [Ran (catalogCommand goVersionURL) True {}, Logf ''Using latest runtime version: 1.20.5''])"
  by (simp add: runtimeVersion_def latestGoVersion_def fallbackContext_def exampleContext_def
      finalGoVersionURL_def parseVersionJSON_exampleCatalog)

lemma archiveURLs_differ: "archiveAltURL ''1.20.5'' \<noteq> archiveURL ''1.20.5''"
  by (simp add: archiveURL_example archiveAltURL_example)

lemma runtimeVersion_revertContext:
  "runtimeVersion revertContext =
     (Inr ''1.19.0'', [Logf ''Using runtime version from go.mod: 1.19.0''])"
  by (simp add: runtimeVersion_def revertContext_def exampleContext_def Let_def)

lemma buildFn_downContext:
  "buildFn downContext exampleLayer =
     (Some (Returned (UserError ''1.20.5'' (archiveAltURL ''1.20.5'') 404 ''GOOGLE_RUNTIME_VERSION'')),
      [Ran (catalogCommand goVersionURL) True {}, Logf ''Using latest runtime version: 1.20.5'',
       CacheMiss goLayer, Cleared,
       Probed (archiveURL ''1.20.5'') 404,
       Logf (notFound ''1.20.5'' (archiveURL ''1.20.5'') 404 ''GOOGLE_RUNTIME_VERSION''),
       Probed (archiveAltURL ''1.20.5'') 404])"
proof -
  have r: "runtimeVersion downContext =
     (Inr ''1.20.5'',
      [Ran (catalogCommand goVersionURL) True {}, Logf ''Using latest runtime version: 1.20.5''])"
    by (simp add: runtimeVersion_downContext runtimeVersion_exampleContext)
  have m: "GetMetadata exampleLayer versionKey \<noteq> ''1.20.5''"
    by (simp add: GetMetadata_exampleLayer)
  have c: "HTTPStatus downContext u = 404" "RuntimeVersion downContext = ''GOOGLE_RUNTIME_VERSION''"
    for u
    by (simp_all add: downContext_def exampleContext_def)
  show ?thesis
    by (simp add: buildFn_miss [OF r m] probeArchive_cases c StatusOK_def)
qed

lemma layerAfter_downContext:
  "layerAfter downContext exampleLayer =
     \<lparr>Path = ''/layers/go'', Metadata = [versionKey \<mapsto> ''1.19.0''], Contents = {}\<rparr>"
  by (simp add: layerAfter_def buildFn_downContext after_Cons after_Nil ClearLayer_def)
    (simp add: exampleLayer_def)

section \<open>The claims\<close>

text \<open>
  C1. Whenever the override variable has a non-empty value, \<open>runtimeVersion\<close> returns
  exactly that value, without error and without any check or trimming of it, whatever the
  manifest version, the network policy and the outcome of commands (the catalog) are; the
  only event is the log line that names the source.
\<close>

theorem override_verbatim:
  assumes "Getenv ctx (RuntimeVersion ctx) = v" and "v \<noteq> []"
  shows "runtimeVersion (ctx\<lparr>GoModVersion := m, DetectNetwork := n, Exec := x\<rparr>) =
           (Inr v, [Logf (Sprintf ''Using runtime version from %s: %s'' [S (RuntimeVersion ctx), S v])])"
  using assms by (simp add: runtimeVersion_def)

theorem override_verbatim_witness:
  "Getenv overrideContext (RuntimeVersion overrideContext) = ''go1.16rc1'' \<and> ''go1.16rc1'' \<noteq> [] \<and>
   runtimeVersion (overrideContext\<lparr>GoModVersion := ''1.15'', DetectNetwork := AlternativeUserNetwork,
       Exec := (\<lambda>_. (False, []))\<rparr>) =
     (Inr ''go1.16rc1'', [Logf ''Using runtime version from GOOGLE_RUNTIME_VERSION: go1.16rc1''])"
proof -
  have h: "Getenv overrideContext (RuntimeVersion overrideContext) = ''go1.16rc1''"
    by (simp add: overrideContext_def exampleContext_def)
  have n: "''go1.16rc1'' \<noteq> []" by simp
  from override_verbatim [OF h n, where m = "''1.15''" and n = AlternativeUserNetwork
      and x = "\<lambda>_. (False, [])"] h
  show ?thesis by (simp add: overrideContext_def exampleContext_def)
qed

text \<open>
  C2. When the override variable is empty or unset and the manifest declares a version,
  \<open>runtimeVersion\<close> returns the manifest's version, whatever the network policy and the
  outcome of commands (the catalog) are. A command is run by the resolver, that is the
  catalog is fetched, exactly when both the override and the manifest version are empty.
\<close>

theorem manifest_second:
  "(Getenv ctx (RuntimeVersion ctx) = [] \<and> GoModVersion ctx \<noteq> [] \<longrightarrow>
      runtimeVersion (ctx\<lparr>DetectNetwork := n, Exec := x\<rparr>) =
        (Inr (GoModVersion ctx),
         [Logf (Sprintf ''Using runtime version from go.mod: %s'' [S (GoModVersion ctx)])])) \<and>
   ((\<exists>e \<in> set (snd (runtimeVersion ctx)). fetches e) \<longleftrightarrow>
      Getenv ctx (RuntimeVersion ctx) = [] \<and> GoModVersion ctx = [])"
  by (auto simp: runtimeVersion_def latestGoVersion_def Let_def fetches_def
      split: prod.splits sum.splits failure.splits)

theorem manifest_second_witness:
  "Getenv manifestContext (RuntimeVersion manifestContext) = [] \<and>
   GoModVersion manifestContext \<noteq> [] \<and>
   runtimeVersion (manifestContext\<lparr>DetectNetwork := AlternativeUserNetwork,
       Exec := (\<lambda>_. (False, []))\<rparr>) =
     (Inr ''1.15'', [Logf ''Using runtime version from go.mod: 1.15'']) \<and>
   \<not> (\<exists>e \<in> set (snd (runtimeVersion manifestContext)). fetches e)"
  using manifest_second [where ctx = manifestContext and n = AlternativeUserNetwork
      and x = "\<lambda>_. (False, [])"]
  by (simp add: manifestContext_def exampleContext_def)

text \<open>
  C3. For every catalog body that decodes to an array of releases, \<open>parseVersionJSON\<close>
  returns the version, with the prefix \<open>go\<close> trimmed, of the first release in array
  order that is stable and whose trimmed version is not empty; when there is none it fails
  with the parse error. With neither override nor manifest version and a catalog command
  that succeeds with this body, that is what \<open>runtimeVersion\<close> returns (the error
  wrapped). For the example body the version is \<open>1.20.5\<close>.
\<close>

theorem catalog_first_stable:
  "(Unmarshal body = Inr releases \<longrightarrow>
      parseVersionJSON body =
        (case find usable releases of
           Some r \<Rightarrow> Inr (TrimPrefix (Version r) ''go'')
         | None \<Rightarrow> Inl (ParsingLatest goVersionURL))) \<and>
   (Getenv ctx (RuntimeVersion ctx) = [] \<and> GoModVersion ctx = [] \<and>
    Exec ctx (catalogCommand (finalGoVersionURL ctx)) = (True, body) \<and>
    Unmarshal body = Inr releases \<longrightarrow>
      fst (runtimeVersion ctx) =
        (case find usable releases of
           Some r \<Rightarrow> Inr (TrimPrefix (Version r) ''go'')
         | None \<Rightarrow> Inl (Returned (GettingLatest (ParsingLatest goVersionURL))))) \<and>
   parseVersionJSON
     ''[{\"version\":\"go1.21.0\",\"stable\":false},{\"version\":\"go1.20.5\",\"stable\":true}]'' =
     Inr ''1.20.5''"
proof (intro conjI impI)
  assume "Unmarshal body = Inr releases"
  then show "parseVersionJSON body =
        (case find usable releases of
           Some r \<Rightarrow> Inr (TrimPrefix (Version r) ''go'')
         | None \<Rightarrow> Inl (ParsingLatest goVersionURL))"
    by (rule parseVersionJSON_find)
next
  assume a: "Getenv ctx (RuntimeVersion ctx) = [] \<and> GoModVersion ctx = [] \<and>
    Exec ctx (catalogCommand (finalGoVersionURL ctx)) = (True, body) \<and>
    Unmarshal body = Inr releases"
  then have "parseVersionJSON body =
        (case find usable releases of
           Some r \<Rightarrow> Inr (TrimPrefix (Version r) ''go'')
         | None \<Rightarrow> Inl (ParsingLatest goVersionURL))"
    by (simp add: parseVersionJSON_find)
  with a show "fst (runtimeVersion ctx) =
        (case find usable releases of
           Some r \<Rightarrow> Inr (TrimPrefix (Version r) ''go'')
         | None \<Rightarrow> Inl (Returned (GettingLatest (ParsingLatest goVersionURL))))"
    by (simp add: runtimeVersion_def latestGoVersion_def split: option.splits)
next
  show "parseVersionJSON
     ''[{\"version\":\"go1.21.0\",\"stable\":false},{\"version\":\"go1.20.5\",\"stable\":true}]'' =
     Inr ''1.20.5''"
    using parseVersionJSON_exampleCatalog by (simp add: exampleCatalog_def)
qed

theorem catalog_first_stable_witness:
  "Getenv exampleContext (RuntimeVersion exampleContext) = [] \<and>
   GoModVersion exampleContext = [] \<and>
   Exec exampleContext (catalogCommand (finalGoVersionURL exampleContext)) = (True, exampleCatalog) \<and>
   Unmarshal exampleCatalog =
     Inr [\<lparr>Version = ''go1.21.0'', Stable = False\<rparr>, \<lparr>Version = ''go1.20.5'', Stable = True\<rparr>] \<and>
   parseVersionJSON exampleCatalog = Inr ''1.20.5'' \<and>
   fst (runtimeVersion exampleContext) = Inr ''1.20.5''"
  using catalog_first_stable [where body = exampleCatalog and ctx = exampleContext
      and releases = "[\<lparr>Version = ''go1.21.0'', Stable = False\<rparr>, \<lparr>Version = ''go1.20.5'', Stable = True\<rparr>]"]
    Unmarshal_exampleCatalog
  by (simp add: exampleContext_def usable_def TrimPrefix_def)

text \<open>
  C4. For a build whose resolver returned version \<open>v\<close> with events \<open>t\<close>: when the
  value stored under the key \<open>version\<close> is the very same string, the build consists of
  the resolver's events and the cache-hit signal; when it is any other string, the build
  signals no hit, its events continue with the cache-miss signal and the wipe, and the layer
  is empty after the wipe. The resolver's events touch no layer, so every probe, download
  and metadata write comes after the wipe. An absent or empty stored value never equals a
  resolved version.
\<close>

theorem cache_hit_iff_identical:
  assumes "runtimeVersion ctx = (Inr v, t)"
  shows "(GetMetadata grl versionKey = v \<longrightarrow> buildFn ctx grl = (None, t @ [CacheHit goLayer])) \<and>
    (GetMetadata grl versionKey \<noteq> v \<longrightarrow>
       CacheHit goLayer \<notin> set (snd (buildFn ctx grl)) \<and>
       (\<exists>rest. snd (buildFn ctx grl) = t @ [CacheMiss goLayer, Cleared] @ rest) \<and>
       Contents (after (t @ [CacheMiss goLayer, Cleared]) grl) = {}) \<and>
    (\<forall>e \<in> set t. inert e) \<and>
    (Metadata grl versionKey = None \<or> Metadata grl versionKey = Some [] \<longrightarrow>
       GetMetadata grl versionKey \<noteq> v)"
proof (intro conjI impI)
  assume "GetMetadata grl versionKey = v"
  with assms show "buildFn ctx grl = (None, t @ [CacheHit goLayer])"
    by (rule buildFn_hit)
next
  assume miss: "GetMetadata grl versionKey \<noteq> v"
  note b = buildFn_miss [OF assms miss]
  show "CacheHit goLayer \<notin> set (snd (buildFn ctx grl))"
    using runtimeVersion_no_hit [OF assms, of goLayer]
    by (auto simp: b split: sum.splits dest: probeArchive_events installGo_events)
  show "\<exists>rest. snd (buildFn ctx grl) = t @ [CacheMiss goLayer, Cleared] @ rest"
    by (auto simp: b split: sum.splits)
  show "Contents (after (t @ [CacheMiss goLayer, Cleared]) grl) = {}"
    by (simp add: after_append after_runtimeVersion [OF assms] after_Cons after_Nil ClearLayer_def)
next
  show "\<forall>e \<in> set t. inert e"
    using assms by (rule runtimeVersion_inert)
next
  assume "Metadata grl versionKey = None \<or> Metadata grl versionKey = Some []"
  then have "GetMetadata grl versionKey = []"
    by (auto simp: GetMetadata_def)
  with runtimeVersion_nonempty [OF assms] show "GetMetadata grl versionKey \<noteq> v"
    by simp
qed

theorem cache_hit_iff_identical_witness:
  "runtimeVersion exampleContext =
     (Inr ''1.20.5'',
      [Ran (catalogCommand goVersionURL) True {}, Logf ''Using latest runtime version: 1.20.5'']) \<and>
   GetMetadata exampleLayer versionKey = ''1.19.0'' \<and>
   CacheHit goLayer \<notin> set (snd (buildFn exampleContext exampleLayer)) \<and>
   Contents (after ([Ran (catalogCommand goVersionURL) True {},
       Logf ''Using latest runtime version: 1.20.5''] @ [CacheMiss goLayer, Cleared]) exampleLayer) = {} \<and>
   buildFn exampleContext (exampleLayer\<lparr>Metadata := [versionKey \<mapsto> ''1.20.5'']\<rparr>) =
     (None, [Ran (catalogCommand goVersionURL) True {},
       Logf ''Using latest runtime version: 1.20.5'', CacheHit goLayer])"
  using cache_hit_iff_identical [OF runtimeVersion_exampleContext, of exampleLayer]
    cache_hit_iff_identical [OF runtimeVersion_exampleContext,
      of "exampleLayer\<lparr>Metadata := [versionKey \<mapsto> ''1.20.5'']\<rparr>"]
    runtimeVersion_exampleContext GetMetadata_exampleLayer
  by (simp add: GetMetadata_def)

text \<open>
  C5. In a cache-miss build for version \<open>v\<close>: when the probe of the primary archive URL
  answers 200 the download uses the primary URL and the alternate is not probed; when it
  answers anything else the alternate URL is probed next, and a 200 there makes the download
  use the alternate URL; when both answer something else the build ends, after both probes,
  with the user error for the alternate URL and its status. The message of that error
  contains the alternate URL, the status code in decimal and the name of the override
  variable. The download itself never ends with a returned error, and it runs the shell
  pipeline whose command line contains the chosen URL.
\<close>

theorem mirror_fallback:
  assumes "runtimeVersion ctx = (Inr v, t)" and "GetMetadata grl versionKey \<noteq> v"
  shows
   "(HTTPStatus ctx (archiveURL v) = StatusOK \<longrightarrow>
       buildFn ctx grl =
         (fst (installGo ctx grl v (archiveURL v)),
          t @ [CacheMiss goLayer, Cleared, Probed (archiveURL v) StatusOK] @
            snd (installGo ctx grl v (archiveURL v)))) \<and>
    (HTTPStatus ctx (archiveURL v) \<noteq> StatusOK \<and> HTTPStatus ctx (archiveAltURL v) = StatusOK \<longrightarrow>
       buildFn ctx grl =
         (fst (installGo ctx grl v (archiveAltURL v)),
          t @ [CacheMiss goLayer, Cleared,
               Probed (archiveURL v) (HTTPStatus ctx (archiveURL v)),
               Logf (notFound v (archiveURL v) (HTTPStatus ctx (archiveURL v)) (RuntimeVersion ctx)),
               Probed (archiveAltURL v) StatusOK] @
            snd (installGo ctx grl v (archiveAltURL v)))) \<and>
    (HTTPStatus ctx (archiveURL v) \<noteq> StatusOK \<and> HTTPStatus ctx (archiveAltURL v) \<noteq> StatusOK \<longrightarrow>
       buildFn ctx grl =
         (Some (Returned (UserError v (archiveAltURL v) (HTTPStatus ctx (archiveAltURL v))
            (RuntimeVersion ctx))),
          t @ [CacheMiss goLayer, Cleared,
               Probed (archiveURL v) (HTTPStatus ctx (archiveURL v)),
               Logf (notFound v (archiveURL v) (HTTPStatus ctx (archiveURL v)) (RuntimeVersion ctx)),
               Probed (archiveAltURL v) (HTTPStatus ctx (archiveAltURL v))])) \<and>
    sublist (archiveAltURL v) (Error txt (UserError v (archiveAltURL v) c (RuntimeVersion ctx))) \<and>
    sublist (Itoa c) (Error txt (UserError v (archiveAltURL v) c (RuntimeVersion ctx))) \<and>
    sublist (RuntimeVersion ctx) (Error txt (UserError v (archiveAltURL v) c (RuntimeVersion ctx))) \<and>
    fst (installGo ctx grl v url) \<noteq> Some (Returned e) \<and>
    Ran (installCommand url (Path grl)) (fst (Exec ctx (installCommand url (Path grl))))
      (Unpacked ctx (installCommand url (Path grl))) \<in> set (snd (installGo ctx grl v url)) \<and>
    sublist url (installCommand url (Path grl) ! 2)"
proof -
  note b = buildFn_miss [OF assms]
  have 1: "HTTPStatus ctx (archiveURL v) = StatusOK \<longrightarrow>
       buildFn ctx grl =
         (fst (installGo ctx grl v (archiveURL v)),
          t @ [CacheMiss goLayer, Cleared, Probed (archiveURL v) StatusOK] @
            snd (installGo ctx grl v (archiveURL v)))"
    by (simp add: b probeArchive_cases)
  have 2: "HTTPStatus ctx (archiveURL v) \<noteq> StatusOK \<and> HTTPStatus ctx (archiveAltURL v) = StatusOK \<longrightarrow>
       buildFn ctx grl =
         (fst (installGo ctx grl v (archiveAltURL v)),
          t @ [CacheMiss goLayer, Cleared,
               Probed (archiveURL v) (HTTPStatus ctx (archiveURL v)),
               Logf (notFound v (archiveURL v) (HTTPStatus ctx (archiveURL v)) (RuntimeVersion ctx)),
               Probed (archiveAltURL v) StatusOK] @
            snd (installGo ctx grl v (archiveAltURL v)))"
    by (simp add: b probeArchive_cases)
  have 3: "HTTPStatus ctx (archiveURL v) \<noteq> StatusOK \<and> HTTPStatus ctx (archiveAltURL v) \<noteq> StatusOK \<longrightarrow>
       buildFn ctx grl =
         (Some (Returned (UserError v (archiveAltURL v) (HTTPStatus ctx (archiveAltURL v))
            (RuntimeVersion ctx))),
          t @ [CacheMiss goLayer, Cleared,
               Probed (archiveURL v) (HTTPStatus ctx (archiveURL v)),
               Logf (notFound v (archiveURL v) (HTTPStatus ctx (archiveURL v)) (RuntimeVersion ctx)),
               Probed (archiveAltURL v) (HTTPStatus ctx (archiveAltURL v))])"
    by (simp add: b probeArchive_cases)
  have 4: "fst (installGo ctx grl v url) \<noteq> Some (Returned e)"
    by (simp add: installGo_cases)
  have 5: "Ran (installCommand url (Path grl)) (fst (Exec ctx (installCommand url (Path grl))))
      (Unpacked ctx (installCommand url (Path grl))) \<in> set (snd (installGo ctx grl v url))"
    by (simp add: installGo_cases)
  have 6: "sublist url (installCommand url (Path grl) ! 2)"
    unfolding installCommand_text sublist_def
    by (rule exI [of _ "''curl --fail --show-error --silent --location --retry 3 ''"], rule exI)
      simp
  from 1 2 3 4 5 6 show ?thesis
    by (simp only: Error.simps notFound_names_url notFound_names_code notFound_names_var
        simp_thms)
qed

theorem mirror_fallback_witness:
  "runtimeVersion downContext =
     (Inr ''1.20.5'',
      [Ran (catalogCommand goVersionURL) True {}, Logf ''Using latest runtime version: 1.20.5'']) \<and>
   GetMetadata exampleLayer versionKey \<noteq> ''1.20.5'' \<and>
   HTTPStatus downContext (archiveURL ''1.20.5'') \<noteq> StatusOK \<and>
   HTTPStatus downContext (archiveAltURL ''1.20.5'') \<noteq> StatusOK \<and>
   buildFn downContext exampleLayer =
     (Some (Returned (UserError ''1.20.5''
        ''https://golang.google.cn/dl/go1.20.5.linux-amd64.tar.gz'' 404 ''GOOGLE_RUNTIME_VERSION'')),
      [Ran (catalogCommand goVersionURL) True {}, Logf ''Using latest runtime version: 1.20.5'',
       CacheMiss goLayer, Cleared,
       Probed ''https://dl.google.com/go/go1.20.5.linux-amd64.tar.gz'' 404,
       Logf ''Runtime version 1.20.5 does not exist at https://dl.google.com/go/go1.20.5.linux-amd64.tar.gz (status 404). You can specify the version with GOOGLE_RUNTIME_VERSION.'',
       Probed ''https://golang.google.cn/dl/go1.20.5.linux-amd64.tar.gz'' 404]) \<and>
   Error (\<lambda>_. []) (UserError ''1.20.5''
        ''https://golang.google.cn/dl/go1.20.5.linux-amd64.tar.gz'' 404 ''GOOGLE_RUNTIME_VERSION'') =
     ''Runtime version 1.20.5 does not exist at https://golang.google.cn/dl/go1.20.5.linux-amd64.tar.gz (status 404). You can specify the version with GOOGLE_RUNTIME_VERSION.''"
proof -
  have r: "runtimeVersion downContext =
     (Inr ''1.20.5'',
      [Ran (catalogCommand goVersionURL) True {}, Logf ''Using latest runtime version: 1.20.5''])"
    by (simp add: runtimeVersion_downContext runtimeVersion_exampleContext)
  have m: "GetMetadata exampleLayer versionKey \<noteq> ''1.20.5''"
    by (simp add: GetMetadata_exampleLayer)
  have n: "notFound ''1.20.5'' u 404 ''GOOGLE_RUNTIME_VERSION'' =
     ''Runtime version 1.20.5 does not exist at '' @ u @
     '' (status 404). You can specify the version with GOOGLE_RUNTIME_VERSION.''" for u
    by (simp add: notFound_text Itoa_404)
  have h: "HTTPStatus downContext (archiveURL ''1.20.5'') \<noteq> StatusOK \<and>
      HTTPStatus downContext (archiveAltURL ''1.20.5'') \<noteq> StatusOK"
    by (simp add: downContext_def StatusOK_def)
  have c: "HTTPStatus downContext u = 404" "RuntimeVersion downContext = ''GOOGLE_RUNTIME_VERSION''"
    for u
    by (simp_all add: downContext_def exampleContext_def)
  from mirror_fallback [OF r m, THEN conjunct2, THEN conjunct2, THEN conjunct1, rule_format, OF h]
  have "buildFn downContext exampleLayer =
     (Some (Returned (UserError ''1.20.5'' (archiveAltURL ''1.20.5'') 404 ''GOOGLE_RUNTIME_VERSION'')),
      [Ran (catalogCommand goVersionURL) True {}, Logf ''Using latest runtime version: 1.20.5'',
       CacheMiss goLayer, Cleared,
       Probed (archiveURL ''1.20.5'') 404,
       Logf (notFound ''1.20.5'' (archiveURL ''1.20.5'') 404 ''GOOGLE_RUNTIME_VERSION''),
       Probed (archiveAltURL ''1.20.5'') 404])"
    by (simp add: c)
  with r m h show ?thesis
    by (simp add: archiveURL_example archiveAltURL_example n)
qed

text \<open>
  C6. The layer a build leaves is a fixed point of the build: running \<open>buildFn\<close> again
  in the same context changes nothing more. When the first build succeeds, the second build
  on the layer it left is a cache hit: its events are those of the resolver (log lines and
  the catalog fetch, which writes no file) followed by the cache-hit signal, so it probes
  no archive URL, runs no download, does not wipe the layer and writes no metadata, and the
  layer stays as it was.
\<close>

theorem second_build_hits:
  "layerAfter ctx (layerAfter ctx grl) = layerAfter ctx grl \<and>
   (buildFn ctx grl = (None, t) \<longrightarrow>
      buildFn ctx (after t grl) = (None, snd (runtimeVersion ctx) @ [CacheHit goLayer]) \<and>
      layerAfter ctx (after t grl) = after t grl \<and>
      (\<forall>e \<in> set (snd (buildFn ctx (after t grl))).
         (\<exists>s. e = Logf s) \<or> (\<exists>ok. e = Ran (catalogCommand (finalGoVersionURL ctx)) ok {}) \<or>
         e = CacheHit goLayer))"
proof (intro conjI impI)
  show "layerAfter ctx (layerAfter ctx grl) = layerAfter ctx grl"
    by (rule layerAfter_idem)
next
  assume a: "buildFn ctx grl = (None, t)"
  then obtain v where v: "fst (runtimeVersion ctx) = Inr v"
    "GetMetadata (after t grl) versionKey = v"
    by (rule buildFn_success)
  then have rv: "runtimeVersion ctx = (Inr v, snd (runtimeVersion ctx))"
    by (cases "runtimeVersion ctx") simp
  from buildFn_hit [OF rv v(2)]
  show b: "buildFn ctx (after t grl) = (None, snd (runtimeVersion ctx) @ [CacheHit goLayer])" .
  show "layerAfter ctx (after t grl) = after t grl"
    by (simp add: layerAfter_def b after_append after_runtimeVersion [OF rv] after_Cons after_Nil)
  show "\<forall>e \<in> set (snd (buildFn ctx (after t grl))).
         (\<exists>s. e = Logf s) \<or> (\<exists>ok. e = Ran (catalogCommand (finalGoVersionURL ctx)) ok {}) \<or>
         e = CacheHit goLayer"
    using runtimeVersion_events [OF rv] by (auto simp: b)
qed

theorem second_build_hits_witness:
  "buildFn exampleContext exampleLayer =
     (None,
      [Ran (catalogCommand goVersionURL) True {}, Logf ''Using latest runtime version: 1.20.5'',
       CacheMiss goLayer, Cleared, Probed (archiveURL ''1.20.5'') StatusOK,
       Logf ''Installing Go v1.20.5'',
       Ran (installCommand (archiveURL ''1.20.5'') ''/layers/go'') True {''bin/go''},
       MetadataSet versionKey ''1.20.5'']) \<and>
   layerAfter exampleContext exampleLayer =
     \<lparr>Path = ''/layers/go'', Metadata = [versionKey \<mapsto> ''1.20.5''], Contents = {''bin/go''}\<rparr> \<and>
   buildFn exampleContext (layerAfter exampleContext exampleLayer) =
     (None,
      [Ran (catalogCommand goVersionURL) True {}, Logf ''Using latest runtime version: 1.20.5'',
       CacheHit goLayer]) \<and>
   layerAfter exampleContext (layerAfter exampleContext exampleLayer) =
     layerAfter exampleContext exampleLayer"
proof -
  note b = buildFn_exampleContext
  have l: "layerAfter exampleContext exampleLayer =
     \<lparr>Path = ''/layers/go'', Metadata = [versionKey \<mapsto> ''1.20.5''], Contents = {''bin/go''}\<rparr>"
    by (simp add: layerAfter_def b after_Cons after_Nil ClearLayer_def SetMetadata_def)
      (simp add: exampleLayer_def)
  from second_build_hits [of exampleContext exampleLayer, THEN conjunct2, rule_format, OF b]
  have "buildFn exampleContext (layerAfter exampleContext exampleLayer) =
     (None, snd (runtimeVersion exampleContext) @ [CacheHit goLayer])"
    by (simp add: layerAfter_def b)
  with b l second_build_hits [of exampleContext exampleLayer, THEN conjunct1]
  show ?thesis
    by (simp add: runtimeVersion_exampleContext)
qed

text \<open>
  C7, as stated, fails. With both mirrors answering 200, the build under the default network
  policy and the build under the alternative network policy (the same context otherwise)
  download from the same archive endpoint, the default one; and under the default policy a
  primary probe that answers 404 makes the build download from the alternate endpoint.
\<close>

theorem endpoint_by_policy_counterexample:
  "DetectNetwork exampleContext = DefaultUserNetwork \<and>
   altContext = exampleContext\<lparr>DetectNetwork := AlternativeUserNetwork\<rparr> \<and>
   buildFn exampleContext exampleLayer =
     (None,
      [Ran (catalogCommand goVersionURL) True {}, Logf ''Using latest runtime version: 1.20.5'',
       CacheMiss goLayer, Cleared,
       Probed ''https://dl.google.com/go/go1.20.5.linux-amd64.tar.gz'' 200,
       Logf ''Installing Go v1.20.5'',
       Ran (installCommand ''https://dl.google.com/go/go1.20.5.linux-amd64.tar.gz'' ''/layers/go'')
         True {''bin/go''},
       MetadataSet versionKey ''1.20.5'']) \<and>
   buildFn altContext exampleLayer =
     (None,
      [Ran (catalogCommand goAltVersionURL) True {}, Logf ''Using latest runtime version: 1.20.5'',
       CacheMiss goLayer, Cleared,
       Probed ''https://dl.google.com/go/go1.20.5.linux-amd64.tar.gz'' 200,
       Logf ''Installing Go v1.20.5'',
       Ran (installCommand ''https://dl.google.com/go/go1.20.5.linux-amd64.tar.gz'' ''/layers/go'')
         True {''bin/go''},
       MetadataSet versionKey ''1.20.5'']) \<and>
   DetectNetwork fallbackContext = DefaultUserNetwork \<and>
   buildFn fallbackContext exampleLayer =
     (None,
      [Ran (catalogCommand goVersionURL) True {}, Logf ''Using latest runtime version: 1.20.5'',
       CacheMiss goLayer, Cleared,
       Probed ''https://dl.google.com/go/go1.20.5.linux-amd64.tar.gz'' 404,
       Logf ''Runtime version 1.20.5 does not exist at https://dl.google.com/go/go1.20.5.linux-amd64.tar.gz (status 404). You can specify the version with GOOGLE_RUNTIME_VERSION.'',
       Probed ''https://golang.google.cn/dl/go1.20.5.linux-amd64.tar.gz'' 200,
       Logf ''Installing Go v1.20.5'',
       Ran (installCommand ''https://golang.google.cn/dl/go1.20.5.linux-amd64.tar.gz'' ''/layers/go'')
         True {''bin/go''},
       MetadataSet versionKey ''1.20.5''])"
proof -
  have m: "GetMetadata exampleLayer versionKey \<noteq> ''1.20.5''"
    by (simp add: GetMetadata_exampleLayer)
  have n: "notFound ''1.20.5'' u 404 ''GOOGLE_RUNTIME_VERSION'' =
     ''Runtime version 1.20.5 does not exist at '' @ u @
     '' (status 404). You can specify the version with GOOGLE_RUNTIME_VERSION.''" for u
    by (simp add: notFound_text Itoa_404)
  have a: "HTTPStatus altContext u = StatusOK" "Exec altContext argv = (True, exampleCatalog)"
    "Unpacked altContext argv = {''bin/go''}" for u argv
    by (simp_all add: altContext_def exampleContext_def StatusOK_def)
  have f: "HTTPStatus fallbackContext (archiveURL ''1.20.5'') = 404"
    "HTTPStatus fallbackContext (archiveAltURL ''1.20.5'') = StatusOK"
    "Exec fallbackContext argv = (True, exampleCatalog)"
    "Unpacked fallbackContext argv = {''bin/go''}"
    "RuntimeVersion fallbackContext = ''GOOGLE_RUNTIME_VERSION''" for argv
    using archiveURLs_differ
    by (simp_all add: fallbackContext_def exampleContext_def StatusOK_def)
  have p: "Path exampleLayer = ''/layers/go''"
    by (simp add: exampleLayer_def)
  have 1: "buildFn altContext exampleLayer =
     (None,
      [Ran (catalogCommand goAltVersionURL) True {}, Logf ''Using latest runtime version: 1.20.5'',
       CacheMiss goLayer, Cleared, Probed (archiveURL ''1.20.5'') 200,
       Logf ''Installing Go v1.20.5'',
       Ran (installCommand (archiveURL ''1.20.5'') ''/layers/go'') True {''bin/go''},
       MetadataSet versionKey ''1.20.5''])"
    by (simp add: buildFn_miss [OF runtimeVersion_altContext m] probeArchive_cases
        installGo_cases a p)
      (simp add: StatusOK_def)
  have 2: "buildFn fallbackContext exampleLayer =
     (None,
      [Ran (catalogCommand goVersionURL) True {}, Logf ''Using latest runtime version: 1.20.5'',
       CacheMiss goLayer, Cleared, Probed (archiveURL ''1.20.5'') 404,
       Logf (notFound ''1.20.5'' (archiveURL ''1.20.5'') 404 ''GOOGLE_RUNTIME_VERSION''),
       Probed (archiveAltURL ''1.20.5'') 200,
       Logf ''Installing Go v1.20.5'',
       Ran (installCommand (archiveAltURL ''1.20.5'') ''/layers/go'') True {''bin/go''},
       MetadataSet versionKey ''1.20.5''])"
    by (simp add: buildFn_miss [OF runtimeVersion_fallbackContext m] probeArchive_cases
        installGo_cases f p)
      (simp add: StatusOK_def)
  have d: "DetectNetwork exampleContext = DefaultUserNetwork"
    "altContext = exampleContext\<lparr>DetectNetwork := AlternativeUserNetwork\<rparr>"
    "DetectNetwork fallbackContext = DefaultUserNetwork"
    by (simp_all add: altContext_def fallbackContext_def exampleContext_def)
  from buildFn_exampleContext 1 2 d show ?thesis
    by (simp add: n archiveURL_example archiveAltURL_example StatusOK_def)
qed

text \<open>
  C7, amended. Which archive endpoint a cache-miss build uses depends on the status probes
  and not on the network policy: the default endpoint when its probe answers 200, otherwise
  the alternate endpoint when its probe answers 200, otherwise none. Changing the network
  policy changes neither the probes nor the download; it selects the catalog URL only. The
  events of a cache-miss build after the resolver's are the miss signal, the wipe, the
  probes and the download from the endpoint the probes chose.
\<close>

theorem endpoint_by_probe:
  "fst (probeArchive ctx v) =
     (if HTTPStatus ctx (archiveURL v) = StatusOK then Inr (archiveURL v)
      else if HTTPStatus ctx (archiveAltURL v) = StatusOK then Inr (archiveAltURL v)
      else Inl (UserError v (archiveAltURL v) (HTTPStatus ctx (archiveAltURL v)) (RuntimeVersion ctx))) \<and>
   probeArchive (ctx\<lparr>DetectNetwork := n\<rparr>) v = probeArchive ctx v \<and>
   installGo (ctx\<lparr>DetectNetwork := n\<rparr>) grl v url = installGo ctx grl v url \<and>
   finalGoVersionURL (ctx\<lparr>DetectNetwork := n\<rparr>) =
     (if n = AlternativeUserNetwork then goAltVersionURL else goVersionURL) \<and>
   (runtimeVersion ctx = (Inr v, t) \<and> GetMetadata grl versionKey \<noteq> v \<longrightarrow>
      snd (buildFn ctx grl) =
        t @ [CacheMiss goLayer, Cleared] @ snd (probeArchive ctx v) @
          (case fst (probeArchive ctx v) of
             Inl err \<Rightarrow> []
           | Inr finalArchiveURL \<Rightarrow> snd (installGo ctx grl v finalArchiveURL)))"
  by (auto simp: probeArchive_cases installGo_cases finalGoVersionURL_def buildFn_miss
      split: sum.splits)

theorem endpoint_by_probe_witness:
  "runtimeVersion fallbackContext =
     (Inr ''1.20.5'',
      [Ran (catalogCommand goVersionURL) True {}, Logf ''Using latest runtime version: 1.20.5'']) \<and>
   GetMetadata exampleLayer versionKey \<noteq> ''1.20.5'' \<and>
   fst (probeArchive fallbackContext ''1.20.5'') = Inr (archiveAltURL ''1.20.5'') \<and>
   fst (probeArchive (fallbackContext\<lparr>DetectNetwork := AlternativeUserNetwork\<rparr>) ''1.20.5'') =
     Inr (archiveAltURL ''1.20.5'') \<and>
   snd (buildFn fallbackContext exampleLayer) =
     [Ran (catalogCommand goVersionURL) True {}, Logf ''Using latest runtime version: 1.20.5'',
      CacheMiss goLayer, Cleared] @ snd (probeArchive fallbackContext ''1.20.5'') @
     snd (installGo fallbackContext exampleLayer ''1.20.5'' (archiveAltURL ''1.20.5''))"
proof -
  have m: "GetMetadata exampleLayer versionKey \<noteq> ''1.20.5''"
    by (simp add: GetMetadata_exampleLayer)
  have f: "HTTPStatus fallbackContext (archiveURL ''1.20.5'') \<noteq> StatusOK"
    "HTTPStatus fallbackContext (archiveAltURL ''1.20.5'') = StatusOK"
    using archiveURLs_differ by (simp_all add: fallbackContext_def StatusOK_def)
  from endpoint_by_probe [where ctx = fallbackContext and v = "''1.20.5''"
      and n = AlternativeUserNetwork and grl = exampleLayer
      and t = "[Ran (catalogCommand goVersionURL) True {},
        Logf ''Using latest runtime version: 1.20.5'']"]
    runtimeVersion_fallbackContext m f
  show ?thesis by simp
qed

text \<open>
  C8, at the failing input. Under the alternative network policy the catalog is fetched from
  \<open>goAltVersionURL\<close>, yet both errors of \<open>parseVersionJSON\<close> carry \<open>goVersionURL\<close>:
  for the body \<open>[]\<close> the message is the one shown, which does not contain the URL that was
  fetched, and for the body \<open>{\<close> the decode error names \<open>goVersionURL\<close> as well.
\<close>

theorem alt_catalog_error_names_default_url:
  "finalGoVersionURL altEmptyContext = goAltVersionURL \<and>
   runtimeVersion altEmptyContext =
     (Inl (Returned (GettingLatest (ParsingLatest goVersionURL))),
      [Ran (catalogCommand goAltVersionURL) True {}]) \<and>
   Error (\<lambda>_. []) (GettingLatest (ParsingLatest goVersionURL)) =
     ''getting latest version: parsing latest stable version from \"https://golang.org/dl/?mode=json\"'' \<and>
   \<not> sublist goAltVersionURL (Error (\<lambda>_. []) (GettingLatest (ParsingLatest goVersionURL))) \<and>
   runtimeVersion (altEmptyContext\<lparr>Exec := (\<lambda>_. (True, ''{''))\<rparr>) =
     (Inl (Returned (GettingLatest (ParsingJSON goVersionURL SyntaxError))),
      [Ran (catalogCommand goAltVersionURL) True {}]) \<and>
   goVersionURL \<noteq> goAltVersionURL"
proof (intro conjI)
  show "finalGoVersionURL altEmptyContext = goAltVersionURL"
    by (simp add: finalGoVersionURL_def altEmptyContext_def)
  have e: "parseVersionJSON ''[]'' = Inl (ParsingLatest goVersionURL)"
    by (simp add: parseVersionJSON_def Unmarshal_empty_array)
  show "runtimeVersion altEmptyContext =
     (Inl (Returned (GettingLatest (ParsingLatest goVersionURL))),
      [Ran (catalogCommand goAltVersionURL) True {}])"
    by (simp add: runtimeVersion_def latestGoVersion_def altEmptyContext_def exampleContext_def
        finalGoVersionURL_def e)
  show "Error (\<lambda>_. []) (GettingLatest (ParsingLatest goVersionURL)) =
     ''getting latest version: parsing latest stable version from \"https://golang.org/dl/?mode=json\"''"
    by (simp add: goVersionURL_def Quote_def)
  show "\<not> sublist goAltVersionURL (Error (\<lambda>_. []) (GettingLatest (ParsingLatest goVersionURL)))"
    by code_simp
  have u: "Unmarshal ''{'' = Inl SyntaxError"
    by code_simp
  show "runtimeVersion (altEmptyContext\<lparr>Exec := (\<lambda>_. (True, ''{''))\<rparr>) =
     (Inl (Returned (GettingLatest (ParsingJSON goVersionURL SyntaxError))),
      [Ran (catalogCommand goAltVersionURL) True {}])"
    by (simp add: runtimeVersion_def latestGoVersion_def altEmptyContext_def exampleContext_def
        finalGoVersionURL_def parseVersionJSON_def u)
  show "goVersionURL \<noteq> goAltVersionURL"
    by (simp add: goVersionURL_def goAltVersionURL_def)
qed

text \<open>
  C9, as stated, fails. The layer records version \<open>1.19.0\<close> and holds its files; a
  cache-miss build for \<open>1.20.5\<close> wipes the layer and then fails because neither mirror
  has the archive. The failed build leaves the metadata naming \<open>1.19.0\<close> over an empty
  layer, and a next build that resolves \<open>1.19.0\<close> is a cache hit on it.
\<close>

theorem stale_metadata_counterexample:
  "exampleLayer =
     \<lparr>Path = ''/layers/go'', Metadata = [versionKey \<mapsto> ''1.19.0''],
      Contents = {''bin/go'', ''VERSION''}\<rparr> \<and>
   fst (buildFn downContext exampleLayer) =
     Some (Returned (UserError ''1.20.5''
       ''https://golang.google.cn/dl/go1.20.5.linux-amd64.tar.gz'' 404 ''GOOGLE_RUNTIME_VERSION'')) \<and>
   layerAfter downContext exampleLayer =
     \<lparr>Path = ''/layers/go'', Metadata = [versionKey \<mapsto> ''1.19.0''], Contents = {}\<rparr> \<and>
   GetMetadata (layerAfter downContext exampleLayer) versionKey = ''1.19.0'' \<and>
   Contents (layerAfter downContext exampleLayer) = {} \<and>
   buildFn revertContext (layerAfter downContext exampleLayer) =
     (None, [Logf ''Using runtime version from go.mod: 1.19.0'', CacheHit goLayer])"
proof (intro conjI)
  show "exampleLayer =
     \<lparr>Path = ''/layers/go'', Metadata = [versionKey \<mapsto> ''1.19.0''],
      Contents = {''bin/go'', ''VERSION''}\<rparr>"
    by (simp add: exampleLayer_def)
  show "fst (buildFn downContext exampleLayer) =
     Some (Returned (UserError ''1.20.5''
       ''https://golang.google.cn/dl/go1.20.5.linux-amd64.tar.gz'' 404 ''GOOGLE_RUNTIME_VERSION''))"
    by (simp add: buildFn_downContext archiveAltURL_example)
  show "layerAfter downContext exampleLayer =
     \<lparr>Path = ''/layers/go'', Metadata = [versionKey \<mapsto> ''1.19.0''], Contents = {}\<rparr>"
    by (rule layerAfter_downContext)
  show g: "GetMetadata (layerAfter downContext exampleLayer) versionKey = ''1.19.0''"
    by (simp add: layerAfter_downContext GetMetadata_def)
  show "Contents (layerAfter downContext exampleLayer) = {}"
    by (simp add: layerAfter_downContext)
  from buildFn_hit [OF runtimeVersion_revertContext g]
  show "buildFn revertContext (layerAfter downContext exampleLayer) =
     (None, [Logf ''Using runtime version from go.mod: 1.19.0'', CacheHit goLayer])"
    by simp
qed

text \<open>
  C9, amended. In a cache-miss build for version \<open>v\<close> the event that writes \<open>v\<close> under
  the key \<open>version\<close> occurs exactly when the build succeeds, so the metadata never names
  the version being installed while its files are absent or incomplete. At whatever point
  the build is cut off (after its first \<open>n\<close> events), the stored version reads \<open>v\<close>
  only if all events were made, the build succeeded, the shell pipeline of the download
  succeeded before the write, which is the last event, and the layer holds exactly what the
  pipeline unpacked into the wiped directory. Whenever the stored version does not read
  \<open>v\<close> at that point, the next build in the same context is a cache miss; a build that
  ends with an error leaves the metadata as it found it (the previously stored version
  stays), and the next build in the same context is a cache miss.
\<close>

theorem metadata_after_extraction:
  assumes "runtimeVersion ctx = (Inr v, t)" and "GetMetadata grl versionKey \<noteq> v"
  shows "(MetadataSet versionKey v \<in> set (snd (buildFn ctx grl)) \<longleftrightarrow> fst (buildFn ctx grl) = None) \<and>
    (GetMetadata (after (take n (snd (buildFn ctx grl))) grl) versionKey = v \<longrightarrow>
       length (snd (buildFn ctx grl)) \<le> n \<and> fst (buildFn ctx grl) = None \<and>
       (\<exists>url. fst (Exec ctx (installCommand url (Path grl))) \<and>
          Ran (installCommand url (Path grl)) True (Unpacked ctx (installCommand url (Path grl)))
            \<in> set (butlast (snd (buildFn ctx grl))) \<and>
          last (snd (buildFn ctx grl)) = MetadataSet versionKey v \<and>
          Contents (after (take n (snd (buildFn ctx grl))) grl) =
            Unpacked ctx (installCommand url (Path grl)))) \<and>
    (GetMetadata (after (take n (snd (buildFn ctx grl))) grl) versionKey \<noteq> v \<longrightarrow>
       CacheMiss goLayer \<in> set (snd (buildFn ctx (after (take n (snd (buildFn ctx grl))) grl)))) \<and>
    (fst (buildFn ctx grl) \<noteq> None \<longrightarrow>
       Metadata (layerAfter ctx grl) = Metadata grl \<and>
       CacheMiss goLayer \<in> set (snd (buildFn ctx (layerAfter ctx grl))))"
proof -
  note rv = assms(1) and miss = assms(2)
  have next_miss: "CacheMiss goLayer \<in> set (snd (buildFn ctx l))"
    if "GetMetadata l versionKey \<noteq> v" for l
    by (auto simp: buildFn_miss [OF rv that] split: sum.splits)
  from rv miss show ?thesis
  proof (cases rule: buildFn_miss_shape)
    case failed
    have m: "Metadata (after (take k (snd (buildFn ctx grl))) grl) = Metadata grl" for k
      by (rule after_no_write) (rule take_no_write, rule failed)
    have g: "GetMetadata (after (take k (snd (buildFn ctx grl))) grl) versionKey \<noteq> v" for k
      using miss by (simp add: GetMetadata_def m)
    have "Metadata (layerAfter ctx grl) = Metadata grl"
      unfolding layerAfter_def by (rule after_no_write) (rule failed)
    moreover from this miss have "GetMetadata (layerAfter ctx grl) versionKey \<noteq> v"
      by (simp add: GetMetadata_def)
    moreover have "MetadataSet versionKey v \<notin> set (snd (buildFn ctx grl))"
      using failed(2) by (auto simp: writesMetadata_def)
    ultimately show ?thesis
      using failed(1) g next_miss by simp
  next
    case (installed pre url)
    have no: "MetadataSet versionKey v \<in> set (snd (buildFn ctx grl))"
      by (simp add: installed(2))
    have short: "GetMetadata (after (take k (snd (buildFn ctx grl))) grl) versionKey \<noteq> v"
      if "k < length (snd (buildFn ctx grl))" for k
    proof -
      from that have "take k (snd (buildFn ctx grl)) = take k pre"
        by (simp add: installed(2))
      moreover have "Metadata (after (take k pre) grl) = Metadata grl"
        by (rule after_no_write) (rule take_no_write, rule installed(3))
      ultimately show ?thesis
        using miss by (simp add: GetMetadata_def)
    qed
    have full: "Contents (after (take k (snd (buildFn ctx grl))) grl) =
        Unpacked ctx (installCommand url (Path grl))"
      if "length (snd (buildFn ctx grl)) \<le> k" for k
      using that installed(6)
      by (simp add: installed(2) after_append after_Cons after_Nil SetMetadata_def)
    have ex: "GetMetadata (after (take n (snd (buildFn ctx grl))) grl) versionKey = v \<longrightarrow>
       length (snd (buildFn ctx grl)) \<le> n \<and> fst (buildFn ctx grl) = None \<and>
       (\<exists>url. fst (Exec ctx (installCommand url (Path grl))) \<and>
          Ran (installCommand url (Path grl)) True (Unpacked ctx (installCommand url (Path grl)))
            \<in> set (butlast (snd (buildFn ctx grl))) \<and>
          last (snd (buildFn ctx grl)) = MetadataSet versionKey v \<and>
          Contents (after (take n (snd (buildFn ctx grl))) grl) =
            Unpacked ctx (installCommand url (Path grl)))"
    proof
      assume a: "GetMetadata (after (take n (snd (buildFn ctx grl))) grl) versionKey = v"
      with short [of n] have n: "length (snd (buildFn ctx grl)) \<le> n"
        by (cases "n < length (snd (buildFn ctx grl))") auto
      have "Ran (installCommand url (Path grl)) True (Unpacked ctx (installCommand url (Path grl)))
            \<in> set (butlast (snd (buildFn ctx grl)))"
        using installed(5) by (simp add: installed(2))
      moreover have "last (snd (buildFn ctx grl)) = MetadataSet versionKey v"
        by (simp add: installed(2))
      ultimately show "length (snd (buildFn ctx grl)) \<le> n \<and> fst (buildFn ctx grl) = None \<and>
       (\<exists>url. fst (Exec ctx (installCommand url (Path grl))) \<and>
          Ran (installCommand url (Path grl)) True (Unpacked ctx (installCommand url (Path grl)))
            \<in> set (butlast (snd (buildFn ctx grl))) \<and>
          last (snd (buildFn ctx grl)) = MetadataSet versionKey v \<and>
          Contents (after (take n (snd (buildFn ctx grl))) grl) =
            Unpacked ctx (installCommand url (Path grl)))"
        using n installed(1,4) full [OF n] by blast
    qed
    from no installed(1) ex next_miss show ?thesis by blast
  qed
qed

theorem metadata_after_extraction_witness:
  "runtimeVersion brokenContext =
     (Inr ''1.20.5'',
      [Ran (catalogCommand goVersionURL) True {}, Logf ''Using latest runtime version: 1.20.5'']) \<and>
   GetMetadata exampleLayer versionKey \<noteq> ''1.20.5'' \<and>
   fst (buildFn brokenContext exampleLayer) =
     Some (Exited (installCommand (archiveURL ''1.20.5'') ''/layers/go'')) \<and>
   MetadataSet versionKey ''1.20.5'' \<notin> set (snd (buildFn brokenContext exampleLayer)) \<and>
   Metadata (layerAfter brokenContext exampleLayer) = Metadata exampleLayer \<and>
   CacheMiss goLayer \<in> set (snd (buildFn brokenContext (layerAfter brokenContext exampleLayer)))"
proof -
  have m: "GetMetadata exampleLayer versionKey \<noteq> ''1.20.5''"
    by (simp add: GetMetadata_exampleLayer)
  have f: "fst (buildFn brokenContext exampleLayer) =
     Some (Exited (installCommand (archiveURL ''1.20.5'') ''/layers/go''))"
    by (simp add: buildFn_brokenContext)
  from metadata_after_extraction [OF runtimeVersion_brokenContext m, of 0] f
    runtimeVersion_brokenContext m
  show ?thesis by simp
qed

text \<open>
  C10. The input \<open>[]\<close> decodes without error to the empty array, so
  \<open>parseVersionJSON\<close> fails on it with the error whose message starts
  \<open>parsing latest stable version from\<close>, and not with the decode error;
  \<open>parseVersionJSON\<close> fails with the decode error exactly on the inputs that
  \<open>json.Unmarshal\<close> rejects.
\<close>

theorem empty_array_no_decode_error:
  "Unmarshal ''[]'' = Inr [] \<and>
   parseVersionJSON ''[]'' = Inl (ParsingLatest goVersionURL) \<and>
   Error txt (ParsingLatest goVersionURL) =
     ''parsing latest stable version from \"https://golang.org/dl/?mode=json\"'' \<and>
   ((\<exists>u e. parseVersionJSON s = Inl (ParsingJSON u e)) = (\<exists>e. Unmarshal s = Inl e))"
proof (intro conjI)
  show "Unmarshal ''[]'' = Inr []" by (rule Unmarshal_empty_array)
  show "parseVersionJSON ''[]'' = Inl (ParsingLatest goVersionURL)"
    by (simp add: parseVersionJSON_def Unmarshal_empty_array)
  show "Error txt (ParsingLatest goVersionURL) =
     ''parsing latest stable version from \"https://golang.org/dl/?mode=json\"''"
    by (simp add: goVersionURL_def Quote_def)
  show "(\<exists>u e. parseVersionJSON s = Inl (ParsingJSON u e)) = (\<exists>e. Unmarshal s = Inl e)"
    by (auto simp: parseVersionJSON_def split: sum.splits option.splits)
qed

end
